theory Spec2Isabelle
  imports Complex_Main
begin

section \<open>The NATS camera server (examples/nats\_camera\_server.py)\<close>

text \<open>
  The script opens a camera, connects to a NATS server and then runs one loop that
  captures a frame, encodes it as JPEG and publishes it, paced to a target frame rate,
  until a termination signal sets a process-wide event.

  The camera, the encoder, the transport and the clock are outside the script. What
  they answer is given by an environment: one record for the run and one record per
  loop iteration. What the script does to them is recorded as a list of events. Time
  is a rational number of seconds; \<open>time.monotonic()\<close> and \<open>asyncio.sleep\<close> are exact
  in this model: the rounding of Python floats is not modelled, the overflow of the
  conversion of an integer to a float is.
\<close>

subsection \<open>Command line\<close>

text \<open>
  An option of the command line as \<open>argparse\<close> meets it: not given, given with a text
  that \<open>int()\<close> converts, or given with a text \<open>int()\<close> rejects.
\<close>

datatype int_arg = Absent | Parsed int | NotAnInt

record cli =
  cli_nats_ip :: "string option"
  cli_nats_port :: int_arg
  cli_camera_index :: int_arg
  cli_width :: int_arg
  cli_height :: int_arg
  cli_fps :: int_arg
  cli_subject :: "string option"
  cli_jpeg_quality :: int_arg

record args =
  nats_ip :: string
  nats_port :: int
  camera_index :: int
  width :: int
  height :: int
  fps :: int
  subject :: string
  jpeg_quality :: int

text \<open>\<open>parser.error\<close>: the usage message, then \<open>SystemExit(2)\<close>.\<close>

datatype usage_error = UsageError

text \<open>\<open>add_argument(type=str, default=d)\<close> and \<open>add_argument(type=int, default=d)\<close>.\<close>

definition str_option :: "string \<Rightarrow> string option \<Rightarrow> string" where
  "str_option d x = (case x of None \<Rightarrow> d | Some s \<Rightarrow> s)"

definition int_option :: "int \<Rightarrow> int_arg \<Rightarrow> usage_error + int" where
  "int_option d x =
     (case x of Absent \<Rightarrow> Inr d | Parsed n \<Rightarrow> Inr n | NotAnInt \<Rightarrow> Inl UsageError)"

text \<open>\<open>add_argument(type=int, default=d, choices=range(lo, hi))\<close>: a converted value
  outside the choices is a usage error; the default is not checked.\<close>

definition choice_option :: "int \<Rightarrow> int \<Rightarrow> int \<Rightarrow> int_arg \<Rightarrow> usage_error + int" where
  "choice_option d lo hi x =
     (case x of
        Absent \<Rightarrow> Inr d
      | Parsed n \<Rightarrow> if lo \<le> n \<and> n < hi then Inr n else Inl UsageError
      | NotAnInt \<Rightarrow> Inl UsageError)"

definition parse_args :: "cli \<Rightarrow> usage_error + args" where
  "parse_args c =
     (case int_option 4222 (cli_nats_port c) of Inl e \<Rightarrow> Inl e | Inr port \<Rightarrow>
     (case int_option 0 (cli_camera_index c) of Inl e \<Rightarrow> Inl e | Inr idx \<Rightarrow>
     (case int_option 640 (cli_width c) of Inl e \<Rightarrow> Inl e | Inr w \<Rightarrow>
     (case int_option 480 (cli_height c) of Inl e \<Rightarrow> Inl e | Inr h \<Rightarrow>
     (case int_option 30 (cli_fps c) of Inl e \<Rightarrow> Inl e | Inr r \<Rightarrow>
     (case choice_option 90 0 101 (cli_jpeg_quality c) of Inl e \<Rightarrow> Inl e | Inr q \<Rightarrow>
        Inr \<lparr> nats_ip = str_option ''0.0.0.0'' (cli_nats_ip c),
              nats_port = port,
              camera_index = idx,
              width = w,
              height = h,
              fps = r,
              subject = str_option ''camera.image.raw'' (cli_subject c),
              jpeg_quality = q \<rparr>))))))"

subsection \<open>The endpoint\<close>

fun str_nat :: "nat \<Rightarrow> string" where
  "str_nat n =
     (if n < 10 then [''0123456789'' ! n]
      else str_nat (n div 10) @ [''0123456789'' ! (n mod 10)])"

definition str_int :: "int \<Rightarrow> string" where
  "str_int i = (if i < 0 then ''-'' @ str_nat (nat (- i)) else str_nat (nat i))"

text \<open>\<open>nats_server_url = f"nats://{args.nats_ip}:{args.nats_port}"\<close>\<close>

definition nats_server_url :: "args \<Rightarrow> string" where
  "nats_server_url a = ''nats://'' @ nats_ip a @ '':'' @ str_int (nats_port a)"

subsection \<open>Frames, payloads and events\<close>

text \<open>A frame as the camera returns it: \<open>rows = frame.shape[0]\<close>, \<open>cols = frame.shape[1]\<close>.\<close>

record frame =
  frame_id :: nat
  rows :: int
  cols :: int

text \<open>The image handed to the encoder: the frame itself, or \<open>cv2.resize(frame, (w, h))\<close>,
  which has \<open>h\<close> rows and \<open>w\<close> columns.\<close>

datatype image = Raw frame | Resized frame int int

fun shape :: "image \<Rightarrow> int \<times> int" where
  "shape (Raw f) = (rows f, cols f)"
| "shape (Resized f w h) = (h, w)"

fun source_frame :: "image \<Rightarrow> frame" where
  "source_frame (Raw f) = f"
| "source_frame (Resized f w h) = f"

text \<open>\<open>buffer.tobytes()\<close> of \<open>cv2.imencode(".jpg", image, [IMWRITE_JPEG_QUALITY, q])\<close>.\<close>

datatype payload = Jpeg image int

datatype level = DEBUG | INFO | WARNING | ERROR | CRITICAL

datatype msg =
    InitializingCamera | CouldNotOpenCamera | SettingCameraProperties
  | ActualCameraProperties | ResolutionNotSupported
  | ConnectingToNats | ConnectedToNats | NoServersAvailable | ConnectionTimeout
  | ErrorConnecting | StartingLoop
  | FailedToRetrieveFrame | PublishedFrame | ConnectionClosedWhilePublishing
  | Reconnected | FailedToReconnect | ErrorPublishing | JpegEncodingFailed
  | FpsTooHigh | UnexpectedError
  | ShuttingDown | Drained | ErrorDuringDrain | Closed | ErrorClosing
  | CameraReleased | AsyncMainFinished
  | StartingServer | ServerShutDown

datatype publish_result = Published | ConnectionClosedError | PublishError

text \<open>
  What the script does, in order. \<open>CapRead t\<close> is the call \<open>cap.read()\<close> of the iteration
  whose \<open>loop_start_time\<close> is \<open>t\<close>; \<open>Sleep d\<close> is \<open>await asyncio.sleep(d)\<close>;
  \<open>Publish s p r\<close> is the call \<open>nc.publish(s, p)\<close> and how it ended;
  \<open>Connect url t\<close> is \<open>nats.connect(url, timeout=t)\<close> and \<open>Reconnect url t\<close> is
  \<open>nc.connect(servers=[url], timeout=t)\<close>.
\<close>

datatype event =
    Log level msg
  | VideoCapture int
  | CapSet int int int
  | Connect string int
  | CapRead rat
  | Sleep rat
  | Resize frame int int
  | Imencode image int
  | Publish string payload publish_result
  | Reconnect string int
  | Drain
  | Close
  | Release

subsection \<open>The environment\<close>

datatype call_result = Returns | Raises

text \<open>\<open>ret, frame = cap.read()\<close>, or an exception of the capture library.\<close>

datatype read_result = ReadRaises | Read bool "frame option"

text \<open>\<open>is_success, buffer = cv2.imencode(...)\<close>, or an exception of the library.\<close>

datatype encode_result = EncodeRaises | Encoded bool

text \<open>
  What the outside answers in one iteration. \<open>work_time\<close> is the time the synchronous
  work of the iteration takes (capture, resize, encode, publish, reconnect), up to the
  point where the iteration sleeps or leaves the loop: on the path that reaches the
  pacing it is \<open>elapsed_time\<close>. \<open>is_connected\<close> is \<open>nc.is_connected\<close> as read in the
  handler of the connection-closed error.
\<close>

record iter_env =
  read_result :: read_result
  resize_result :: call_result
  encode_result :: encode_result
  publish_result :: publish_result
  is_connected :: bool
  reconnect_result :: call_result
  work_time :: rat

datatype connect_result = Connected | NoServersError | TimeoutError | ConnectError

text \<open>
  What the outside answers in one run. \<open>signals\<close> are the times at which SIGINT or
  SIGTERM is delivered; \<open>loop_start\<close> is the time at which the loop is first entered;
  \<open>iterations\<close> is the script of the loop, one record per iteration.
\<close>

record env =
  camera_opens :: bool
  actual_width :: int
  actual_height :: int
  connect_result :: connect_result
  loop_start :: rat
  signals :: "rat list"
  iterations :: "iter_env list"
  connected_at_exit :: bool
  drain_result :: call_result
  close_result :: call_result

subsection \<open>The shutdown event\<close>

text \<open>
  \<open>signal_handler\<close> sets \<open>shutdown_event\<close>, and nothing in \<open>async_main\<close> clears it: at time
  \<open>t\<close> the event is set when a signal has been delivered by then.
\<close>

definition is_set :: "rat list \<Rightarrow> rat \<Rightarrow> bool" where
  "is_set sigs t = list_ex (\<lambda>s. s \<le> t) sigs"

subsection \<open>One iteration of the loop\<close>

datatype py_error = ZeroDivisionError | OverflowError

text \<open>
  The conversion of an \<open>int\<close> to a \<open>float\<close> rounds to the nearest double, ties to even, and
  raises \<open>OverflowError\<close> when the rounded value is \<open>2 ^ 1024\<close> or more in magnitude: the
  largest double is \<open>2 ^ 1024 - 2 ^ 971\<close>, and the integers from \<open>2 ^ 1024 - 2 ^ 970\<close> on
  round up.
\<close>

definition float_overflows :: "int \<Rightarrow> bool" where
  "float_overflows n \<longleftrightarrow> 2 ^ 1024 - 2 ^ 970 \<le> \<bar>n\<bar>"

text \<open>\<open>frame_duration = 1.0 / args.fps\<close>: the integer is converted to a float, then a
  divisor of zero raises \<open>ZeroDivisionError\<close>.\<close>

definition frame_duration :: "args \<Rightarrow> py_error + rat" where
  "frame_duration a =
     (if float_overflows (fps a) then Inl OverflowError
      else if fps a = 0 then Inl ZeroDivisionError
      else Inr (1 / of_int (fps a)))"

text \<open>How the body of the loop is left: to the next iteration, by \<open>break\<close>, or by an
  exception that no handler of the body catches.\<close>

datatype control = Continue | Break | Raise

text \<open>The pacing at the end of the body: the events and the time slept.\<close>

definition pace :: "rat \<Rightarrow> rat \<Rightarrow> event list \<times> rat" where
  "pace frame_dur elapsed_time =
     (let sleep_duration = frame_dur - elapsed_time in
      if sleep_duration > 0 then ([Sleep sleep_duration], sleep_duration)
      else if sleep_duration < - (5 / 1000) then ([Log WARNING FpsTooHigh], 0)
      else ([], 0))"

text \<open>The publish and its handlers: the events, and whether the loop is left by \<open>break\<close>.\<close>

definition publish :: "args \<Rightarrow> string \<Rightarrow> iter_env \<Rightarrow> payload \<Rightarrow> event list \<times> bool" where
  "publish a url e p =
     (case publish_result e of
        Published \<Rightarrow> ([Publish (subject a) p Published, Log DEBUG PublishedFrame], False)
      | ConnectionClosedError \<Rightarrow>
          (if \<not> is_connected e then
             (case reconnect_result e of
                Returns \<Rightarrow>
                  ([Publish (subject a) p ConnectionClosedError,
                    Log ERROR ConnectionClosedWhilePublishing,
                    Reconnect url 5, Log INFO Reconnected], False)
              | Raises \<Rightarrow>
                  ([Publish (subject a) p ConnectionClosedError,
                    Log ERROR ConnectionClosedWhilePublishing,
                    Reconnect url 5, Log ERROR FailedToReconnect], True))
           else
             ([Publish (subject a) p ConnectionClosedError,
               Log ERROR ConnectionClosedWhilePublishing], False))
      | PublishError \<Rightarrow> ([Publish (subject a) p PublishError, Log ERROR ErrorPublishing], False))"

text \<open>Encoding, publishing and pacing of the image chosen for this iteration; \<open>pre\<close> are
  the events of the iteration so far.\<close>

definition encode_publish ::
  "args \<Rightarrow> string \<Rightarrow> rat \<Rightarrow> rat \<Rightarrow> iter_env \<Rightarrow> event list \<Rightarrow> image
     \<Rightarrow> event list \<times> rat \<times> control" where
  "encode_publish a url frame_dur t0 e pre resized_frame =
     (case encode_result e of
        EncodeRaises \<Rightarrow>
          (pre @ [Imencode resized_frame (jpeg_quality a)], t0 + work_time e, Raise)
      | Encoded is_success \<Rightarrow>
          (let (pub, brk) =
                 (if is_success then publish a url e (Jpeg resized_frame (jpeg_quality a))
                  else ([Log WARNING JpegEncodingFailed], False))
           in if brk then
                (pre @ [Imencode resized_frame (jpeg_quality a)] @ pub, t0 + work_time e, Break)
              else
                (let (paced, slept) = pace frame_dur (work_time e)
                 in (pre @ [Imencode resized_frame (jpeg_quality a)] @ pub @ paced,
                     t0 + work_time e + slept, Continue))))"

text \<open>The body of the loop, entered at time \<open>t0\<close>: the events, the time at which the body
  is left, and how it is left.\<close>

definition iteration ::
  "args \<Rightarrow> string \<Rightarrow> rat \<Rightarrow> rat \<Rightarrow> iter_env \<Rightarrow> event list \<times> rat \<times> control" where
  "iteration a url frame_dur t0 e =
     (case read_result e of
        ReadRaises \<Rightarrow> ([CapRead t0], t0 + work_time e, Raise)
      | Read ret fr \<Rightarrow>
          (case fr of
             None \<Rightarrow>
               ([CapRead t0, Log WARNING FailedToRetrieveFrame, Sleep (1 / 10)],
                t0 + work_time e + 1 / 10, Continue)
           | Some f \<Rightarrow>
               if \<not> ret then
                 ([CapRead t0, Log WARNING FailedToRetrieveFrame, Sleep (1 / 10)],
                  t0 + work_time e + 1 / 10, Continue)
               else if cols f \<noteq> width a \<or> rows f \<noteq> height a then
                 (case resize_result e of
                    Raises \<Rightarrow>
                      ([CapRead t0, Resize f (width a) (height a)], t0 + work_time e, Raise)
                  | Returns \<Rightarrow>
                      encode_publish a url frame_dur t0 e
                        [CapRead t0, Resize f (width a) (height a)]
                        (Resized f (width a) (height a)))
               else encode_publish a url frame_dur t0 e [CapRead t0] (Raw f)))"

subsection \<open>The loop\<close>

datatype exit_reason =
    CameraOpenFailed | ConnectFailed | Shutdown | ReconnectFailed | Unexpected

text \<open>
  \<open>while not shutdown_event.is_set(): ...\<close> run on a script of iterations. The result is
  the events, the time reached and why the loop was left; the reason is \<open>None\<close> when the
  script ends with the loop still running.
\<close>

fun loop ::
  "args \<Rightarrow> string \<Rightarrow> rat \<Rightarrow> rat list \<Rightarrow> rat \<Rightarrow> iter_env list
     \<Rightarrow> event list \<times> rat \<times> exit_reason option" where
  "loop a url frame_dur sigs now [] =
     (if is_set sigs now then ([], now, Some Shutdown) else ([], now, None))"
| "loop a url frame_dur sigs now (e # es) =
     (if is_set sigs now then ([], now, Some Shutdown)
      else
        (case iteration a url frame_dur now e of
           (evs, t, Continue) \<Rightarrow>
             (case loop a url frame_dur sigs t es of
                (evs', t', r) \<Rightarrow> (evs @ evs', t', r))
         | (evs, t, Break) \<Rightarrow> (evs, t, Some ReconnectFailed)
         | (evs, t, Raise) \<Rightarrow> (evs, t, Some Unexpected)))"

subsection \<open>Start-up, clean-up and the process\<close>

text \<open>
  The \<open>finally\<close> block of \<open>async_main\<close>. \<open>nc\<close> tells whether the transport handle exists;
  \<open>cap_opened\<close> is \<open>cap.isOpened()\<close>: the handle is opened at start-up and only
  \<open>cap.release()\<close>, called here, closes it.
\<close>

definition cleanup :: "bool \<Rightarrow> bool \<Rightarrow> call_result \<Rightarrow> call_result \<Rightarrow> bool \<Rightarrow> event list" where
  "cleanup nc is_conn drain_r close_r cap_opened =
     [Log INFO ShuttingDown] @
     (if nc \<and> is_conn then
        [Drain,
         (case drain_r of Returns \<Rightarrow> Log INFO Drained | Raises \<Rightarrow> Log ERROR ErrorDuringDrain),
         Close,
         (case close_r of Returns \<Rightarrow> Log INFO Closed | Raises \<Rightarrow> Log ERROR ErrorClosing)]
      else if nc then [Close]
      else []) @
     (if cap_opened then [Release, Log INFO CameraReleased] else []) @
     [Log INFO AsyncMainFinished]"

text \<open>The events of \<open>async_main\<close> before the connection attempt is answered.\<close>

definition startup :: "args \<Rightarrow> env \<Rightarrow> event list" where
  "startup a w =
     [Log INFO InitializingCamera, VideoCapture (camera_index a),
      Log INFO SettingCameraProperties, CapSet (width a) (height a) (fps a),
      Log INFO ActualCameraProperties] @
     (if actual_width w \<noteq> width a \<or> actual_height w \<noteq> height a
      then [Log WARNING ResolutionNotSupported] else []) @
     [Log INFO ConnectingToNats, Connect (nats_server_url a) 5]"

text \<open>
  \<open>async_main\<close>: the events, the time reached by the loop, and why the function ended
  (\<open>None\<close>: the script of iterations ended with the loop still running, and nothing
  after the loop has happened yet).
\<close>

definition async_main :: "args \<Rightarrow> env \<Rightarrow> event list \<times> rat \<times> exit_reason option" where
  "async_main a w =
     (if \<not> camera_opens w then
        ([Log INFO InitializingCamera, VideoCapture (camera_index a),
          Log ERROR CouldNotOpenCamera] @
         cleanup False False (drain_result w) (close_result w) False,
         loop_start w, Some CameraOpenFailed)
      else
        (case connect_result w of
           NoServersError \<Rightarrow>
             (startup a w @ [Log ERROR NoServersAvailable] @
              cleanup False False (drain_result w) (close_result w) True,
              loop_start w, Some ConnectFailed)
         | TimeoutError \<Rightarrow>
             (startup a w @ [Log ERROR ConnectionTimeout] @
              cleanup False False (drain_result w) (close_result w) True,
              loop_start w, Some ConnectFailed)
         | ConnectError \<Rightarrow>
             (startup a w @ [Log ERROR ErrorConnecting] @
              cleanup False False (drain_result w) (close_result w) True,
              loop_start w, Some ConnectFailed)
         | Connected \<Rightarrow>
             (case frame_duration a of
                Inl err \<Rightarrow>
                  (startup a w @ [Log INFO ConnectedToNats, Log ERROR UnexpectedError] @
                   cleanup True (connected_at_exit w) (drain_result w) (close_result w) True,
                   loop_start w, Some Unexpected)
              | Inr frame_dur \<Rightarrow>
                  (case loop a (nats_server_url a) frame_dur (signals w) (loop_start w)
                          (iterations w) of
                     (evs, t, None) \<Rightarrow>
                       (startup a w @ [Log INFO ConnectedToNats, Log INFO StartingLoop] @ evs,
                        t, None)
                   | (evs, t, Some r) \<Rightarrow>
                       (startup a w @ [Log INFO ConnectedToNats, Log INFO StartingLoop] @ evs @
                        (if r = Unexpected then [Log ERROR UnexpectedError] else []) @
                        cleanup True (connected_at_exit w) (drain_result w) (close_result w)
                          True,
                        t, Some r)))))"

text \<open>
  The process: the command line is parsed, the handlers are registered and
  \<open>asyncio.run(async_main(args))\<close> is run. The result is the events and the exit status:
  2 when \<open>argparse\<close> rejects the command line, 0 when the script runs to its end (no
  statement of the script sets another status), and \<open>None\<close> while the loop is running.
\<close>

definition main :: "cli \<Rightarrow> env \<Rightarrow> event list \<times> int option" where
  "main c w =
     (case parse_args c of
        Inl e \<Rightarrow> ([], Some 2)
      | Inr a \<Rightarrow>
          (case async_main a w of
             (evs, t, None) \<Rightarrow> (Log INFO StartingServer # evs, None)
           | (evs, t, Some r) \<Rightarrow>
               (Log INFO StartingServer # evs @ [Log INFO ServerShutDown], Some 0)))"

subsection \<open>Observations of a trace\<close>

text \<open>The capture requests, the publish calls and the reconnect calls of a trace.\<close>

fun captures :: "event list \<Rightarrow> rat list" where
  "captures [] = []"
| "captures (CapRead t # evs) = t # captures evs"
| "captures (ev # evs) = captures evs"

fun publishes :: "event list \<Rightarrow> (string \<times> payload \<times> publish_result) list" where
  "publishes [] = []"
| "publishes (Publish s p r # evs) = (s, p, r) # publishes evs"
| "publishes (ev # evs) = publishes evs"

fun reconnects :: "event list \<Rightarrow> (string \<times> int) list" where
  "reconnects [] = []"
| "reconnects (Reconnect u t # evs) = (u, t) # reconnects evs"
| "reconnects (ev # evs) = reconnects evs"

fun sleeps :: "event list \<Rightarrow> rat list" where
  "sleeps [] = []"
| "sleeps (Sleep d # evs) = d # sleeps evs"
| "sleeps (ev # evs) = sleeps evs"

fun encoded_image :: "payload \<Rightarrow> image" where
  "encoded_image (Jpeg img q) = img"

fun encoded_quality :: "payload \<Rightarrow> int" where
  "encoded_quality (Jpeg img q) = q"

text \<open>\<open>not ret or frame is None\<close>: the source reports failure or returns no frame.\<close>

definition capture_fails :: "iter_env \<Rightarrow> bool" where
  "capture_fails e =
     (case read_result e of
        ReadRaises \<Rightarrow> False
      | Read ret fr \<Rightarrow> \<not> ret \<or> fr = None)"

text \<open>The iteration gets as far as the call of \<open>nc.publish\<close>: a frame is captured, the
  resize (when there is one) returns and the encoder reports success.\<close>

definition reaches_publish :: "args \<Rightarrow> iter_env \<Rightarrow> bool" where
  "reaches_publish a e =
     (case read_result e of
        ReadRaises \<Rightarrow> False
      | Read ret fr \<Rightarrow>
          (case fr of
             None \<Rightarrow> False
           | Some f \<Rightarrow>
               ret \<and> ((cols f = width a \<and> rows f = height a) \<or> resize_result e = Returns)
                 \<and> encode_result e = Encoded True))"

text \<open>The calls of the clean-up, in the order in which they are made.\<close>

fun teardown :: "event list \<Rightarrow> event list" where
  "teardown [] = []"
| "teardown (Drain # evs) = Drain # teardown evs"
| "teardown (Close # evs) = Close # teardown evs"
| "teardown (Release # evs) = Release # teardown evs"
| "teardown (ev # evs) = teardown evs"

text \<open>
  A publish call of a run is in order: it goes to the configured subject, and its payload
  is encoded at the configured quality from an image of the target shape, made from a
  frame that a capture of the run returned with success.
\<close>

definition publish_ok ::
  "args \<Rightarrow> iter_env list \<Rightarrow> string \<times> payload \<times> publish_result \<Rightarrow> bool" where
  "publish_ok a es x \<longleftrightarrow>
     fst x = subject a \<and>
     (\<exists>e \<in> set es.
        read_result e = Read True (Some (source_frame (encoded_image (fst (snd x)))))) \<and>
     shape (encoded_image (fst (snd x))) = (height a, width a) \<and>
     encoded_quality (fst (snd x)) = jpeg_quality a"

subsection \<open>Sample inputs\<close>

definition default_cli :: cli where
  "default_cli =
     \<lparr> cli_nats_ip = None, cli_nats_port = Absent, cli_camera_index = Absent,
       cli_width = Absent, cli_height = Absent, cli_fps = Absent, cli_subject = None,
       cli_jpeg_quality = Absent \<rparr>"

definition default_args :: args where
  "default_args =
     \<lparr> nats_ip = ''0.0.0.0'', nats_port = 4222, camera_index = 0, width = 640,
       height = 480, fps = 30, subject = ''camera.image.raw'', jpeg_quality = 90 \<rparr>"

definition vga_frame :: frame where
  "vga_frame = \<lparr> frame_id = 0, rows = 480, cols = 640 \<rparr>"

definition big_frame :: frame where
  "big_frame = \<lparr> frame_id = 1, rows = 960, cols = 1280 \<rparr>"

text \<open>An iteration in which everything succeeds after 10 ms of work.\<close>

definition ok_iter :: iter_env where
  "ok_iter =
     \<lparr> read_result = Read True (Some vga_frame), resize_result = Returns,
       encode_result = Encoded True, publish_result = Published, is_connected = True,
       reconnect_result = Returns, work_time = 1 / 100 \<rparr>"

text \<open>A run in which everything succeeds and no signal arrives.\<close>

definition quiet_env :: env where
  "quiet_env =
     \<lparr> camera_opens = True, actual_width = 640, actual_height = 480,
       connect_result = Connected, loop_start = 0, signals = [], iterations = [],
       connected_at_exit = True, drain_result = Returns, close_result = Returns \<rparr>"

text \<open>The capture fails; the transport is lost and the reconnect fails; the camera
  returns a frame of 1280 by 960.\<close>

definition failed_iter :: iter_env where
  "failed_iter = ok_iter\<lparr>read_result := Read False None\<rparr>"

definition closed_iter :: iter_env where
  "closed_iter =
     ok_iter\<lparr>publish_result := ConnectionClosedError, is_connected := False,
       reconnect_result := Raises\<rparr>"

definition big_iter :: iter_env where
  "big_iter = ok_iter\<lparr>read_result := Read True (Some big_frame)\<rparr>"

text \<open>The publish fails for another reason; the publish fails on a closed connection that
  the client has already restored.\<close>

definition error_iter :: iter_env where
  "error_iter = ok_iter\<lparr>publish_result := PublishError\<rparr>"

definition bounced_iter :: iter_env where
  "bounced_iter = ok_iter\<lparr>publish_result := ConnectionClosedError\<rparr>"

text \<open>A run that loses the transport in its first iteration and cannot reconnect; at
  the clean-up the transport reports disconnected and its \<open>close\<close> raises.\<close>

definition lost_transport_env :: env where
  "lost_transport_env =
     quiet_env\<lparr>iterations := [closed_iter, ok_iter], connected_at_exit := False,
       close_result := Raises\<rparr>"

text \<open>A run of two iterations in which a signal arrives 20 ms after the loop started.\<close>

definition signalled_env :: env where
  "signalled_env = quiet_env\<lparr>signals := [1 / 50], iterations := [ok_iter, ok_iter]\<rparr>"

section \<open>Properties\<close>

subsection \<open>Evaluation lemmas\<close>

lemma parse_default: "parse_args default_cli = Inr default_args"
  by (simp add: parse_args_def default_cli_def default_args_def int_option_def
      choice_option_def str_option_def)

lemma frame_duration_default: "frame_duration default_args = Inr (1 / 30)"
  by (simp add: frame_duration_def float_overflows_def default_args_def)

text \<open>The conversion overflows from \<open>2 ^ 1024 - 2 ^ 970\<close> on, and not below.\<close>

lemma frame_duration_overflow:
  "frame_duration (default_args\<lparr>fps := 2 ^ 1024 - 2 ^ 970\<rparr>) = Inl OverflowError"
  "frame_duration (default_args\<lparr>fps := - (2 ^ 1024)\<rparr>) = Inl OverflowError"
  "frame_duration (default_args\<lparr>fps := 2 ^ 1024 - 2 ^ 970 - 1\<rparr>) =
     Inr (1 / of_int (2 ^ 1024 - 2 ^ 970 - 1))"
  by (simp_all add: frame_duration_def float_overflows_def)

lemma pace_cases:
  "pace T el =
     (if el < T then ([Sleep (T - el)], T - el)
      else if 5 / 1000 < el - T then ([Log WARNING FpsTooHigh], 0) else ([], 0))"
  by (auto simp: pace_def Let_def)

lemma iteration_ok:
  "iteration default_args u (1 / 30) 0 ok_iter =
     ([CapRead 0, Imencode (Raw vga_frame) 90,
       Publish ''camera.image.raw'' (Jpeg (Raw vga_frame) 90) Published,
       Log DEBUG PublishedFrame, Sleep (7 / 300)], 1 / 30, Continue)"
  by (simp add: iteration_def encode_publish_def publish_def pace_cases ok_iter_def
      default_args_def vga_frame_def)

lemma iteration_overrun:
  "iteration default_args u (1 / 30) 0 (ok_iter\<lparr>work_time := 37 / 1000\<rparr>) =
     ([CapRead 0, Imencode (Raw vga_frame) 90,
       Publish ''camera.image.raw'' (Jpeg (Raw vga_frame) 90) Published,
       Log DEBUG PublishedFrame], 37 / 1000, Continue)"
  by (simp add: iteration_def encode_publish_def publish_def pace_cases ok_iter_def
      default_args_def vga_frame_def)

subsection \<open>The structure of traces\<close>

lemma captures_append: "captures (xs @ ys) = captures xs @ captures ys"
  by (induction xs rule: captures.induct) simp_all

lemma publishes_append: "publishes (xs @ ys) = publishes xs @ publishes ys"
  by (induction xs rule: publishes.induct) simp_all

lemma reconnects_append: "reconnects (xs @ ys) = reconnects xs @ reconnects ys"
  by (induction xs rule: reconnects.induct) simp_all

lemma sleeps_append: "sleeps (xs @ ys) = sleeps xs @ sleeps ys"
  by (induction xs rule: sleeps.induct) simp_all

lemma loop_step:
  assumes "\<not> is_set sigs now" and "iteration a url T now e = (evs, t, c)"
  shows "loop a url T sigs now (e # es) =
           (case c of
              Continue \<Rightarrow> (case loop a url T sigs t es of (evs', t', r) \<Rightarrow> (evs @ evs', t', r))
            | Break \<Rightarrow> (evs, t, Some ReconnectFailed)
            | Raise \<Rightarrow> (evs, t, Some Unexpected))"
  using assms by (simp split: control.splits)


lemma pace_no_reconnect: "reconnects (fst (pace T el)) = []"
  by (simp add: pace_cases)

lemma pace_no_publish: "publishes (fst (pace T el)) = []"
  by (simp add: pace_cases)

lemma pace_no_capture: "captures (fst (pace T el)) = []"
  by (simp add: pace_cases)

lemma reaches_publishD:
  assumes "reaches_publish a e"
  obtains f where "read_result e = Read True (Some f)"
    and "(cols f = width a \<and> rows f = height a) \<or> resize_result e = Returns"
    and "encode_result e = Encoded True"
  using assms
  by (auto simp: reaches_publish_def split: read_result.splits option.splits)

lemma iteration_publish_path:
  assumes rd: "read_result e = Read True (Some f)"
    and rs: "(cols f = width a \<and> rows f = height a) \<or> resize_result e = Returns"
    and en: "encode_result e = Encoded True"
    and img: "img = (if cols f = width a \<and> rows f = height a then Raw f
                     else Resized f (width a) (height a))"
    and pre: "pre = CapRead t0 # (if cols f = width a \<and> rows f = height a then []
                     else [Resize f (width a) (height a)]) @ [Imencode img (jpeg_quality a)]"
    and pub: "publish a url e (Jpeg img (jpeg_quality a)) = (evp, brk)"
  shows "iteration a url T t0 e =
           (if brk then (pre @ evp, t0 + work_time e, Break)
            else (pre @ evp @ fst (pace T (work_time e)),
                  t0 + work_time e + snd (pace T (work_time e)), Continue))"
proof (cases "cols f = width a \<and> rows f = height a")
  case True
  with rd en img pre pub show ?thesis
    by (simp add: iteration_def encode_publish_def split_beta)
next
  case False
  with rs have r: "resize_result e = Returns" by simp
  from False img have i: "img = Resized f (width a) (height a)" by simp
  from False pre have p: "pre = [CapRead t0, Resize f (width a) (height a),
      Imencode img (jpeg_quality a)]" by simp
  from False have ne: "cols f \<noteq> width a \<or> rows f \<noteq> height a" by simp
  from pub i have "publish a url e (Jpeg (Resized f (width a) (height a)) (jpeg_quality a))
      = (evp, brk)" by simp
  with ne r rd en i p show ?thesis
    by (simp add: iteration_def encode_publish_def split_beta)
qed


lemma publish_obs:
  assumes "publish a url e p = (evp, brk)"
  shows "set (reconnects evp) \<subseteq> {(url, 5)}" and "publishes evp = [(subject a, p, publish_result e)]"
    and "captures evp = []"
  using assms
  by (auto simp: publish_def split: publish_result.splits if_splits call_result.splits)

lemma encode_publish_obs:
  assumes "encode_publish a url T t0 e pre img = (evs, t, c)"
  shows "set (reconnects evs) \<subseteq> set (reconnects pre) \<union> {(url, 5)}"
    and "captures evs = captures pre"
    and "set (publishes evs) \<subseteq>
           set (publishes pre) \<union> {(subject a, Jpeg img (jpeg_quality a), publish_result e)}"
proof -
  obtain evp brk where pub: "publish a url e (Jpeg img (jpeg_quality a)) = (evp, brk)"
    by (cases "publish a url e (Jpeg img (jpeg_quality a))")
  note o = publish_obs [OF pub]
  from assms pub o(1) show "set (reconnects evs) \<subseteq> set (reconnects pre) \<union> {(url, 5)}"
    by (auto simp: encode_publish_def split_beta reconnects_append pace_no_reconnect
        split: encode_result.splits if_splits)
  from assms pub o(3) show "captures evs = captures pre"
    by (auto simp: encode_publish_def split_beta captures_append pace_no_capture
        split: encode_result.splits if_splits)
  from assms pub o(2) show "set (publishes evs) \<subseteq>
           set (publishes pre) \<union> {(subject a, Jpeg img (jpeg_quality a), publish_result e)}"
    by (auto simp: encode_publish_def split_beta publishes_append pace_no_publish
        split: encode_result.splits if_splits)
qed

text \<open>What one iteration can do: one capture request, reconnects only to the given
  endpoint with the timeout 5, and a publish only of a payload encoded, at the
  configured quality, from an image of the target shape made from a frame that the
  capture returned with success.\<close>

lemma iteration_obs:
  assumes "iteration a url T t0 e = (evs, t, c)"
  shows "captures evs = [t0]"
    and "set (reconnects evs) \<subseteq> {(url, 5)}"
    and "\<forall>x \<in> set (publishes evs).
           fst x = subject a \<and>
           read_result e = Read True (Some (source_frame (encoded_image (fst (snd x))))) \<and>
           shape (encoded_image (fst (snd x))) = (height a, width a) \<and>
           encoded_quality (fst (snd x)) = jpeg_quality a"
proof -
  show "captures evs = [t0]"
    using assms
    by (auto simp: iteration_def dest!: encode_publish_obs(2)
        split: read_result.splits option.splits if_splits call_result.splits)
  show "set (reconnects evs) \<subseteq> {(url, 5)}"
    using assms
    by (auto simp: iteration_def dest!: encode_publish_obs(1)
        split: read_result.splits option.splits if_splits call_result.splits)
  show "\<forall>x \<in> set (publishes evs).
           fst x = subject a \<and>
           read_result e = Read True (Some (source_frame (encoded_image (fst (snd x))))) \<and>
           shape (encoded_image (fst (snd x))) = (height a, width a) \<and>
           encoded_quality (fst (snd x)) = jpeg_quality a"
    using assms
    by (auto simp: iteration_def dest!: encode_publish_obs(3)
        split: read_result.splits option.splits if_splits call_result.splits)
qed


lemma publish_ok_Cons: "publish_ok a es x \<Longrightarrow> publish_ok a (e # es) x"
  by (auto simp: publish_ok_def)

lemma loop_obs:
  "loop a url T sigs now es = (evs, t, r) \<Longrightarrow>
     set (reconnects evs) \<subseteq> {(url, 5)} \<and>
     (\<forall>x \<in> set (publishes evs). publish_ok a es x) \<and>
     (\<forall>tc \<in> set (captures evs). \<not> is_set sigs tc)"
proof (induction es arbitrary: now evs t r)
  case Nil
  then show ?case by (auto split: if_splits)
next
  case (Cons e es)
  show ?case
  proof (cases "is_set sigs now")
    case True
    with Cons.prems show ?thesis by simp
  next
    case False
    obtain ev1 t1 c where it: "iteration a url T now e = (ev1, t1, c)"
      by (cases "iteration a url T now e")
    note o = iteration_obs [OF it]
    from o(3) have p1: "\<forall>x \<in> set (publishes ev1). publish_ok a (e # es) x"
      by (auto simp: publish_ok_def)
    from o(1) False have c1: "\<forall>tc \<in> set (captures ev1). \<not> is_set sigs tc"
      by simp
    show ?thesis
    proof (cases c)
      case Continue
      obtain ev2 t2 r2 where lp: "loop a url T sigs t1 es = (ev2, t2, r2)"
        by (cases "loop a url T sigs t1 es")
      from Cons.IH [OF lp] have ih: "set (reconnects ev2) \<subseteq> {(url, 5)}"
        "\<forall>x \<in> set (publishes ev2). publish_ok a (e # es) x"
        "\<forall>tc \<in> set (captures ev2). \<not> is_set sigs tc"
        by (auto intro: publish_ok_Cons)
      from Cons.prems False it Continue lp have "evs = ev1 @ ev2" by simp
      with o(2) p1 c1 ih show ?thesis
        by (auto simp: reconnects_append publishes_append captures_append)
    next
      case Break
      with Cons.prems False it have "evs = ev1" by simp
      with o(2) p1 c1 show ?thesis by simp
    next
      case Raise
      with Cons.prems False it have "evs = ev1" by simp
      with o(2) p1 c1 show ?thesis by simp
    qed
  qed
qed

lemma cleanup_obs:
  "reconnects (cleanup nc cn dr cr co) = []" "publishes (cleanup nc cn dr cr co) = []"
  "captures (cleanup nc cn dr cr co) = []"
  by (simp_all add: cleanup_def reconnects_append publishes_append captures_append
      split: call_result.splits)

lemma startup_obs:
  "reconnects (startup a w) = []" "publishes (startup a w) = []" "captures (startup a w) = []"
  by (simp_all add: startup_def reconnects_append publishes_append captures_append)

text \<open>The loop inside \<open>async_main\<close>: when the function gets as far as the loop, its trace
  is the start-up, the events of the loop and what follows the loop.\<close>

lemma async_main_trace:
  "\<exists>pre evs post t r.
     fst (async_main a w) = pre @ evs @ post \<and>
     reconnects pre = [] \<and> publishes pre = [] \<and> captures pre = [] \<and>
     reconnects post = [] \<and> publishes post = [] \<and> captures post = [] \<and>
     (evs = [] \<or> (\<exists>T. frame_duration a = Inr T \<and>
        loop a (nats_server_url a) T (signals w) (loop_start w) (iterations w) = (evs, t, r)))"
proof (cases "camera_opens w \<and> connect_result w = Connected \<and> (\<exists>T. frame_duration a = Inr T)")
  case False
  then have "\<exists>pre. fst (async_main a w) = pre @ [] @ [] \<and> reconnects pre = [] \<and>
      publishes pre = [] \<and> captures pre = []"
    by (cases "frame_duration a")
       (auto simp: async_main_def reconnects_append publishes_append
          captures_append cleanup_obs startup_obs split: connect_result.splits)
  then show ?thesis by (metis reconnects.simps(1) publishes.simps(1) captures.simps(1))
next
  case True
  then obtain T where fd: "frame_duration a = Inr T" by blast
  obtain evs t r where lp: "loop a (nats_server_url a) T (signals w)
      (loop_start w) (iterations w) = (evs, t, r)"
    by (cases "loop a (nats_server_url a) T (signals w) (loop_start w) (iterations w)")
  define pre where "pre = startup a w @ [Log INFO ConnectedToNats, Log INFO StartingLoop]"
  define post where "post = (case r of None \<Rightarrow> [] | Some x \<Rightarrow>
      (if x = Unexpected then [Log ERROR UnexpectedError] else []) @
      cleanup True (connected_at_exit w) (drain_result w) (close_result w) True)"
  from True fd lp have "fst (async_main a w) = pre @ evs @ post"
    by (simp add: async_main_def pre_def post_def split: option.splits)
  moreover have "reconnects pre = [] \<and> publishes pre = [] \<and> captures pre = []"
    by (simp add: pre_def reconnects_append publishes_append captures_append startup_obs)
  moreover have "reconnects post = [] \<and> publishes post = [] \<and> captures post = []"
    by (simp add: post_def reconnects_append publishes_append captures_append cleanup_obs
        split: option.splits)
  ultimately show ?thesis using fd lp by blast
qed

lemma async_main_obs:
  "set (reconnects (fst (async_main a w))) \<subseteq> {(nats_server_url a, 5)}"
  "\<forall>x \<in> set (publishes (fst (async_main a w))). publish_ok a (iterations w) x"
  "\<forall>tc \<in> set (captures (fst (async_main a w))). \<not> is_set (signals w) tc"
proof -
  from async_main_trace [of a w] obtain pre evs post t r where
    tr: "fst (async_main a w) = pre @ evs @ post" and
    o: "reconnects pre = []" "publishes pre = []" "captures pre = []"
       "reconnects post = []" "publishes post = []" "captures post = []" and
    lp: "evs = [] \<or> (\<exists>T. frame_duration a = Inr T \<and>
        loop a (nats_server_url a) T (signals w) (loop_start w) (iterations w) = (evs, t, r))"
    by blast
  from lp have "set (reconnects evs) \<subseteq> {(nats_server_url a, 5)} \<and>
     (\<forall>x \<in> set (publishes evs). publish_ok a (iterations w) x) \<and>
     (\<forall>tc \<in> set (captures evs). \<not> is_set (signals w) tc)"
    using loop_obs by fastforce
  with tr o show "set (reconnects (fst (async_main a w))) \<subseteq> {(nats_server_url a, 5)}"
    "\<forall>x \<in> set (publishes (fst (async_main a w))). publish_ok a (iterations w) x"
    "\<forall>tc \<in> set (captures (fst (async_main a w))). \<not> is_set (signals w) tc"
    by (simp_all add: reconnects_append publishes_append captures_append)
qed

lemma teardown_append: "teardown (xs @ ys) = teardown xs @ teardown ys"
  by (induction xs rule: teardown.induct) simp_all

lemma pace_no_teardown: "teardown (fst (pace T el)) = []"
  by (simp add: pace_cases)

lemma publish_no_teardown: "teardown (fst (publish a url e p)) = []"
  by (simp add: publish_def split: publish_result.splits call_result.splits)

lemma encode_publish_teardown:
  assumes "encode_publish a url T t0 e pre img = (evs, t, c)"
  shows "teardown evs = teardown pre"
proof -
  obtain evp brk where pub: "publish a url e (Jpeg img (jpeg_quality a)) = (evp, brk)"
    by (cases "publish a url e (Jpeg img (jpeg_quality a))")
  with publish_no_teardown [of a url e "Jpeg img (jpeg_quality a)"]
  have "teardown evp = []" by simp
  with assms pub show ?thesis
    by (auto simp: encode_publish_def split_beta teardown_append pace_no_teardown
        split: encode_result.splits if_splits)
qed

lemma iteration_no_teardown:
  assumes "iteration a url T t0 e = (evs, t, c)"
  shows "teardown evs = []"
  using assms
  by (auto simp: iteration_def dest!: encode_publish_teardown
      split: read_result.splits option.splits if_splits call_result.splits)

lemma loop_exit:
  "loop a url T sigs now es = (evs, t, r) \<Longrightarrow>
     teardown evs = [] \<and> (r = Some Shutdown \<longrightarrow> is_set sigs t)"
proof (induction es arbitrary: now evs t r)
  case Nil
  then show ?case by (auto split: if_splits)
next
  case (Cons e es)
  show ?case
  proof (cases "is_set sigs now")
    case True
    with Cons.prems show ?thesis by auto
  next
    case False
    obtain ev1 t1 c where it: "iteration a url T now e = (ev1, t1, c)"
      by (cases "iteration a url T now e")
    note o = iteration_no_teardown [OF it]
    show ?thesis
    proof (cases c)
      case Continue
      obtain ev2 t2 r2 where lp: "loop a url T sigs t1 es = (ev2, t2, r2)"
        by (cases "loop a url T sigs t1 es")
      from Cons.prems False it Continue lp have "evs = ev1 @ ev2" "t = t2" "r = r2"
        by simp_all
      with o Cons.IH [OF lp] show ?thesis
        by (simp add: teardown_append)
    next
      case Break
      with Cons.prems False it have "evs = ev1" "r = Some ReconnectFailed" by simp_all
      with o show ?thesis by simp
    next
      case Raise
      with Cons.prems False it have "evs = ev1" "r = Some Unexpected" by simp_all
      with o show ?thesis by simp
    qed
  qed
qed

lemma startup_no_teardown: "teardown (startup a w) = []"
  by (simp add: startup_def teardown_append)

text \<open>The run when the loop was entered and left, or the period could not be computed.\<close>

lemma async_main_after_connect:
  assumes am: "async_main a w = (tr, t, Some r)"
    and r: "r = Shutdown \<or> r = ReconnectFailed \<or> r = Unexpected"
  shows "\<exists>before. tr = before @
           cleanup True (connected_at_exit w) (drain_result w) (close_result w) True \<and>
           teardown before = [] \<and> (r = Shutdown \<longrightarrow> is_set (signals w) t)"
proof -
  from am r have co: "camera_opens w"
    by (auto simp: async_main_def split: if_splits)
  with am r have cn: "connect_result w = Connected"
    by (auto simp: async_main_def split: connect_result.splits)
  show ?thesis
  proof (cases "frame_duration a")
    case (Inl err)
    with am co cn have "tr = (startup a w @ [Log INFO ConnectedToNats, Log ERROR UnexpectedError]) @
        cleanup True (connected_at_exit w) (drain_result w) (close_result w) True"
      and "r = Unexpected"
      by (simp_all add: async_main_def)
    moreover have "teardown (startup a w @ [Log INFO ConnectedToNats, Log ERROR UnexpectedError]) = []"
      by (simp add: teardown_append startup_no_teardown)
    ultimately show ?thesis by blast
  next
    case (Inr T)
    obtain evs t' r' where lp: "loop a (nats_server_url a) T (signals w)
        (loop_start w) (iterations w) = (evs, t', r')"
      by (cases "loop a (nats_server_url a) T (signals w) (loop_start w) (iterations w)")
    from am co cn Inr lp have r': "r' = Some r" and t': "t' = t"
      by (auto simp: async_main_def split: option.splits)
    from am co cn Inr lp r' have "tr = (startup a w @
        [Log INFO ConnectedToNats, Log INFO StartingLoop] @ evs @
        (if r = Unexpected then [Log ERROR UnexpectedError] else [])) @
        cleanup True (connected_at_exit w) (drain_result w) (close_result w) True"
      by (simp add: async_main_def)
    moreover from loop_exit [OF lp] have "teardown (startup a w @
        [Log INFO ConnectedToNats, Log INFO StartingLoop] @ evs @
        (if r = Unexpected then [Log ERROR UnexpectedError] else [])) = []"
      by (simp add: teardown_append startup_no_teardown)
    moreover from loop_exit [OF lp] r' t' have "r = Shutdown \<longrightarrow> is_set (signals w) t"
      by simp
    ultimately show ?thesis by blast
  qed
qed

lemma iteration_sleeps:
  assumes "read_result e = Read True (Some f)"
    and "iteration a url T t0 e = (evs, t, Continue)"
    and "work_time e < T"
  shows "(\<exists>work. evs = work @ [Sleep (T - work_time e)]) \<and> t = t0 + T"
  using assms
  by (auto simp: iteration_def encode_publish_def publish_def pace_cases
      split: if_splits call_result.splits encode_result.splits publish_result.splits
        prod.splits)

subsection \<open>Sample runs, evaluated\<close>

lemma not_set_nil: "\<not> is_set [] t"
  by (simp add: is_set_def)

lemma loop_set: "is_set sigs now \<Longrightarrow> loop a url T sigs now es = ([], now, Some Shutdown)"
  by (cases es) simp_all

lemma iteration_closed:
  "iteration default_args u (1 / 30) 0 closed_iter =
     ([CapRead 0, Imencode (Raw vga_frame) 90,
       Publish ''camera.image.raw'' (Jpeg (Raw vga_frame) 90) ConnectionClosedError,
       Log ERROR ConnectionClosedWhilePublishing, Reconnect u 5,
       Log ERROR FailedToReconnect], 1 / 100, Break)"
  by (simp add: iteration_def encode_publish_def publish_def closed_iter_def ok_iter_def
      default_args_def vga_frame_def)

lemma iteration_failed:
  "iteration a u T t0 failed_iter =
     ([CapRead t0, Log WARNING FailedToRetrieveFrame, Sleep (1 / 10)], t0 + 1 / 100 + 1 / 10,
      Continue)"
  by (simp add: iteration_def failed_iter_def ok_iter_def)

lemma iteration_big:
  "iteration default_args u (1 / 30) t0 big_iter =
     ([CapRead t0, Resize big_frame 640 480, Imencode (Resized big_frame 640 480) 90,
       Publish ''camera.image.raw'' (Jpeg (Resized big_frame 640 480) 90) Published,
       Log DEBUG PublishedFrame, Sleep (7 / 300)], t0 + 1 / 100 + 7 / 300, Continue)"
  by (simp add: iteration_def encode_publish_def publish_def pace_cases big_iter_def
      ok_iter_def default_args_def big_frame_def)

lemma iteration_error:
  "iteration default_args u (1 / 30) 0 error_iter =
     ([CapRead 0, Imencode (Raw vga_frame) 90,
       Publish ''camera.image.raw'' (Jpeg (Raw vga_frame) 90) PublishError,
       Log ERROR ErrorPublishing, Sleep (7 / 300)], 1 / 30, Continue)"
  by (simp add: iteration_def encode_publish_def publish_def pace_cases error_iter_def
      ok_iter_def default_args_def vga_frame_def)

lemma iteration_bounced:
  "iteration default_args u (1 / 30) 0 bounced_iter =
     ([CapRead 0, Imencode (Raw vga_frame) 90,
       Publish ''camera.image.raw'' (Jpeg (Raw vga_frame) 90) ConnectionClosedError,
       Log ERROR ConnectionClosedWhilePublishing, Sleep (7 / 300)], 1 / 30, Continue)"
  by (simp add: iteration_def encode_publish_def publish_def pace_cases bounced_iter_def
      ok_iter_def default_args_def vga_frame_def)

lemma reaches_publish_closed: "reaches_publish default_args closed_iter"
  by (simp add: reaches_publish_def closed_iter_def ok_iter_def default_args_def vga_frame_def)

lemma url_default: "nats_server_url default_args = ''nats://0.0.0.0:4222''"
  by (simp add: nats_server_url_def default_args_def str_int_def)

lemma async_main_lost_transport:
  "async_main default_args lost_transport_env =
     ([Log INFO InitializingCamera, VideoCapture 0, Log INFO SettingCameraProperties,
       CapSet 640 480 30, Log INFO ActualCameraProperties, Log INFO ConnectingToNats,
       Connect ''nats://0.0.0.0:4222'' 5, Log INFO ConnectedToNats, Log INFO StartingLoop,
       CapRead 0, Imencode (Raw vga_frame) 90,
       Publish ''camera.image.raw'' (Jpeg (Raw vga_frame) 90) ConnectionClosedError,
       Log ERROR ConnectionClosedWhilePublishing, Reconnect ''nats://0.0.0.0:4222'' 5,
       Log ERROR FailedToReconnect, Log INFO ShuttingDown, Close, Release,
       Log INFO CameraReleased, Log INFO AsyncMainFinished], 1 / 100, Some ReconnectFailed)"
proof -
  have "loop default_args ''nats://0.0.0.0:4222'' (1 / 30) [] 0 [closed_iter, ok_iter] =
      ([CapRead 0, Imencode (Raw vga_frame) 90,
       Publish ''camera.image.raw'' (Jpeg (Raw vga_frame) 90) ConnectionClosedError,
       Log ERROR ConnectionClosedWhilePublishing, Reconnect ''nats://0.0.0.0:4222'' 5,
       Log ERROR FailedToReconnect], 1 / 100, Some ReconnectFailed)"
    by (simp add: not_set_nil iteration_closed)
  then show ?thesis
    by (simp add: async_main_def lost_transport_env_def quiet_env_def url_default
        frame_duration_default startup_def cleanup_def)
       (simp add: default_args_def)
qed

lemma pace_logs: "Log lv m \<in> set (fst (pace T el)) \<Longrightarrow> lv = WARNING \<and> m = FpsTooHigh"
  by (simp add: pace_cases split: if_splits)

lemma iteration_capture_fails:
  "capture_fails e \<Longrightarrow>
     iteration a url T t0 e =
       ([CapRead t0, Log WARNING FailedToRetrieveFrame, Sleep (1 / 10)],
        t0 + work_time e + 1 / 10, Continue)"
  by (auto simp: capture_fails_def iteration_def split: read_result.splits option.splits)

lemma loop_capture_failures:
  "\<forall>e \<in> set es. capture_fails e \<Longrightarrow> loop a url T sigs now es = (evs, t, r) \<Longrightarrow>
     publishes evs = [] \<and> r \<noteq> Some ReconnectFailed \<and> r \<noteq> Some Unexpected \<and>
     (sigs = [] \<longrightarrow> r = None \<and> length (captures evs) = length es \<and>
        sleeps evs = replicate (length es) (1 / 10))"
proof (induction es arbitrary: now evs t r)
  case Nil
  then show ?case by (auto simp: not_set_nil split: if_splits)
next
  case (Cons e es)
  show ?case
  proof (cases "is_set sigs now")
    case True
    with Cons.prems(2) not_set_nil show ?thesis by auto
  next
    case False
    from Cons.prems(1) have it: "iteration a url T now e =
        ([CapRead now, Log WARNING FailedToRetrieveFrame, Sleep (1 / 10)],
         now + work_time e + 1 / 10, Continue)"
      by (simp add: iteration_capture_fails)
    obtain ev2 t2 r2 where lp: "loop a url T sigs (now + work_time e + 1 / 10) es = (ev2, t2, r2)"
      by (cases "loop a url T sigs (now + work_time e + 1 / 10) es")
    from Cons.prems(1) have "\<forall>e \<in> set es. capture_fails e" by simp
    note ih = Cons.IH [OF this lp]
    from Cons.prems(2) False it lp
    have "evs = [CapRead now, Log WARNING FailedToRetrieveFrame, Sleep (1 / 10)] @ ev2"
      and "r = r2"
      by simp_all
    with ih show ?thesis by simp
  qed
qed

lemma capture_fails_failed: "capture_fails failed_iter"
  by (simp add: capture_fails_def failed_iter_def)

lemma iteration_ok_at:
  "iteration default_args u (1 / 30) start ok_iter =
     ([CapRead start, Imencode (Raw vga_frame) 90,
       Publish ''camera.image.raw'' (Jpeg (Raw vga_frame) 90) Published,
       Log DEBUG PublishedFrame, Sleep (7 / 300)], start + 1 / 100 + 7 / 300, Continue)"
  by (simp add: iteration_def encode_publish_def publish_def pace_cases ok_iter_def
      default_args_def vga_frame_def)

lemma loop_two_failures_then_frame:
  "loop default_args u (1 / 30) [] 0 [failed_iter, failed_iter, ok_iter] =
     ([CapRead 0, Log WARNING FailedToRetrieveFrame, Sleep (1 / 10),
       CapRead (11 / 100), Log WARNING FailedToRetrieveFrame, Sleep (1 / 10),
       CapRead (11 / 50), Imencode (Raw vga_frame) 90,
       Publish ''camera.image.raw'' (Jpeg (Raw vga_frame) 90) Published,
       Log DEBUG PublishedFrame, Sleep (7 / 300)], 19 / 75, None)"
  by (simp add: not_set_nil iteration_failed iteration_ok_at)

lemma async_main_big:
  "async_main default_args (quiet_env\<lparr>iterations := [big_iter]\<rparr>) =
     ([Log INFO InitializingCamera, VideoCapture 0, Log INFO SettingCameraProperties,
       CapSet 640 480 30, Log INFO ActualCameraProperties, Log INFO ConnectingToNats,
       Connect ''nats://0.0.0.0:4222'' 5, Log INFO ConnectedToNats, Log INFO StartingLoop,
       CapRead 0, Resize big_frame 640 480, Imencode (Resized big_frame 640 480) 90,
       Publish ''camera.image.raw'' (Jpeg (Resized big_frame 640 480) 90) Published,
       Log DEBUG PublishedFrame, Sleep (7 / 300)], 1 / 30, None)"
proof -
  have "loop default_args ''nats://0.0.0.0:4222'' (1 / 30) [] 0 [big_iter] =
      ([CapRead 0, Resize big_frame 640 480, Imencode (Resized big_frame 640 480) 90,
       Publish ''camera.image.raw'' (Jpeg (Resized big_frame 640 480) 90) Published,
       Log DEBUG PublishedFrame, Sleep (7 / 300)], 1 / 30, None)"
    by (simp add: not_set_nil iteration_big)
  then show ?thesis
    by (simp add: async_main_def quiet_env_def url_default frame_duration_default startup_def)
       (simp add: default_args_def)
qed

lemma async_main_no_camera:
  "async_main default_args (quiet_env\<lparr>camera_opens := False\<rparr>) =
     ([Log INFO InitializingCamera, VideoCapture 0, Log ERROR CouldNotOpenCamera,
       Log INFO ShuttingDown, Log INFO AsyncMainFinished], 0, Some CameraOpenFailed)"
  by (simp add: async_main_def quiet_env_def cleanup_def default_args_def)

lemma async_main_no_server:
  "async_main default_args (quiet_env\<lparr>connect_result := NoServersError\<rparr>) =
     ([Log INFO InitializingCamera, VideoCapture 0, Log INFO SettingCameraProperties,
       CapSet 640 480 30, Log INFO ActualCameraProperties, Log INFO ConnectingToNats,
       Connect ''nats://0.0.0.0:4222'' 5, Log ERROR NoServersAvailable,
       Log INFO ShuttingDown, Release, Log INFO CameraReleased, Log INFO AsyncMainFinished],
      0, Some ConnectFailed)"
  by (simp add: async_main_def quiet_env_def cleanup_def startup_def url_default)
     (simp add: default_args_def)

lemma is_set_signal: "\<not> is_set [1 / 50] 0 \<and> \<not> is_set [1 / 50] (1 / 100) \<and>
    is_set [1 / 50] (1 / 50) \<and> is_set [1 / 50] (1 / 30)"
  by (simp add: is_set_def)

lemma loop_signalled:
  "loop default_args u (1 / 30) [1 / 50] 0 [ok_iter, ok_iter] =
     ([CapRead 0, Imencode (Raw vga_frame) 90,
       Publish ''camera.image.raw'' (Jpeg (Raw vga_frame) 90) Published,
       Log DEBUG PublishedFrame, Sleep (7 / 300)], 1 / 30, Some Shutdown)"
  by (simp add: is_set_signal iteration_ok)

lemma async_main_signalled:
  "async_main default_args signalled_env =
     ([Log INFO InitializingCamera, VideoCapture 0, Log INFO SettingCameraProperties,
       CapSet 640 480 30, Log INFO ActualCameraProperties, Log INFO ConnectingToNats,
       Connect ''nats://0.0.0.0:4222'' 5, Log INFO ConnectedToNats, Log INFO StartingLoop,
       CapRead 0, Imencode (Raw vga_frame) 90,
       Publish ''camera.image.raw'' (Jpeg (Raw vga_frame) 90) Published,
       Log DEBUG PublishedFrame, Sleep (7 / 300), Log INFO ShuttingDown, Drain,
       Log INFO Drained, Close, Log INFO Closed, Release, Log INFO CameraReleased,
       Log INFO AsyncMainFinished], 1 / 30, Some Shutdown)"
  using loop_signalled [of "''nats://0.0.0.0:4222''"]
  by (simp add: async_main_def signalled_env_def quiet_env_def url_default
        frame_duration_default startup_def cleanup_def)
     (simp add: default_args_def)

subsection \<open>Cadence pacing\<close>

text \<open>
  C3, as the code has it. In every iteration that captures a frame and goes on to the
  next one, with \<open>T = 1 / fps\<close> and the elapsed time measured from the start of the
  iteration: when the elapsed time is below \<open>T\<close> the last event of the iteration is a
  sleep of \<open>T\<close> minus the elapsed time, and the next iteration starts at \<open>t0 + T\<close>; when
  it is \<open>T\<close> or more the iteration does not sleep, and it logs the warning exactly when
  the overrun is more than 5 ms, a fixed time that does not depend on the period.
\<close>

theorem pacing_fixed_tolerance:
  assumes "frame_duration a = Inr T"
    and "read_result e = Read True (Some f)"
    and "iteration a url T t0 e = (evs, t, Continue)"
  shows "T = 1 / of_int (fps a) \<and>
         (work_time e < T \<longrightarrow>
            (\<exists>work. evs = work @ [Sleep (T - work_time e)] \<and> sleeps work = []
               \<and> Log WARNING FpsTooHigh \<notin> set work) \<and> t = t0 + T) \<and>
         (T \<le> work_time e \<longrightarrow>
            sleeps evs = [] \<and> t = t0 + work_time e \<and>
            (Log WARNING FpsTooHigh \<in> set evs \<longleftrightarrow> 5 / 1000 < work_time e - T))"
  using assms
  by (auto simp: frame_duration_def iteration_def encode_publish_def publish_def pace_cases
      split: if_splits call_result.splits encode_result.splits publish_result.splits
        prod.splits)

theorem pacing_fixed_tolerance_witness:
  "frame_duration default_args = Inr (1 / 30) \<and>
   read_result ok_iter = Read True (Some vga_frame) \<and>
   work_time ok_iter < 1 / 30 \<and>
   (\<exists>work. [CapRead 0, Imencode (Raw vga_frame) 90,
             Publish ''camera.image.raw'' (Jpeg (Raw vga_frame) 90) Published,
             Log DEBUG PublishedFrame, Sleep (7 / 300)]
           = work @ [Sleep (1 / 30 - work_time ok_iter)] \<and> sleeps work = [])"
proof -
  have rd: "read_result ok_iter = Read True (Some vga_frame)"
    by (simp add: ok_iter_def)
  have lt: "work_time ok_iter < 1 / 30"
    by (simp add: ok_iter_def)
  from pacing_fixed_tolerance [OF frame_duration_default rd iteration_ok [of "''u''"]] lt
  have "\<exists>work. [CapRead 0, Imencode (Raw vga_frame) 90,
             Publish ''camera.image.raw'' (Jpeg (Raw vga_frame) 90) Published,
             Log DEBUG PublishedFrame, Sleep (7 / 300)]
           = work @ [Sleep (1 / 30 - work_time ok_iter)] \<and> sleeps work = []"
    by blast
  with frame_duration_default rd lt show ?thesis by blast
qed

text \<open>
  At 30 frames per second the period is 1/30 s. An iteration that takes 37 ms overruns
  it by 11/3 ms, which is 11% of the period, and logs nothing.
\<close>

theorem pacing_tolerance_counterexample:
  "frame_duration default_args = Inr (1 / 30) \<and>
   5 / 1000 * (1 / 30) < 37 / 1000 - (1 / 30 :: rat) \<and>
   iteration default_args (nats_server_url default_args) (1 / 30) 0
       (ok_iter\<lparr>work_time := 37 / 1000\<rparr>) =
     ([CapRead 0, Imencode (Raw vga_frame) 90,
       Publish ''camera.image.raw'' (Jpeg (Raw vga_frame) 90) Published,
       Log DEBUG PublishedFrame], 37 / 1000, Continue)"
  using frame_duration_default iteration_overrun by simp

subsection \<open>Publish with bounded reconnect\<close>

text \<open>
  C2. In an iteration that reaches the publish call and whose publish raises the
  connection-closed error, the loop logs the failure, calls \<open>nc.publish\<close> once only (the
  payload is not retried), and reconnects only when the transport still reports
  disconnected, then exactly once, to the endpoint the loop was given, with the timeout 5.
  When the transport reports connected or the reconnect returns, the loop goes on with
  the next iteration; when the reconnect raises, the loop ends there, whatever the rest
  of the script. In \<open>async_main\<close> every reconnect goes to \<open>nats_server_url\<close>, the endpoint
  of the first connection.
\<close>

theorem bounded_reconnect:
  assumes rp: "reaches_publish a e" 
    and cc: "publish_result e = ConnectionClosedError"
    and ns: "\<not> is_set sigs now"
    and it: "iteration a url T now e = (evs, t, c)"
  shows "Log ERROR ConnectionClosedWhilePublishing \<in> set evs \<and>
         length (publishes evs) = 1 \<and>
         reconnects evs = (if is_connected e then [] else [(url, 5)]) \<and>
         (is_connected e \<or> reconnect_result e = Returns \<longrightarrow>
            c = Continue \<and>
            loop a url T sigs now (e # es) =
              (case loop a url T sigs t es of (evs', t', r) \<Rightarrow> (evs @ evs', t', r))) \<and>
         (\<not> is_connected e \<and> reconnect_result e = Raises \<longrightarrow>
            c = Break \<and> loop a url T sigs now (e # es) = (evs, t, Some ReconnectFailed)) \<and>
         set (reconnects (fst (async_main a w))) \<subseteq> {(nats_server_url a, 5)}"
proof -
  from rp obtain f where rd: "read_result e = Read True (Some f)"
    and rs: "(cols f = width a \<and> rows f = height a) \<or> resize_result e = Returns"
    and en: "encode_result e = Encoded True"
    by (rule reaches_publishD)
  define img where "img = (if cols f = width a \<and> rows f = height a then Raw f
                     else Resized f (width a) (height a))"
  define pre where "pre = CapRead now # (if cols f = width a \<and> rows f = height a then []
                     else [Resize f (width a) (height a)]) @ [Imencode img (jpeg_quality a)]"
  obtain evp brk where pub: "publish a url e (Jpeg img (jpeg_quality a)) = (evp, brk)"
    by (cases "publish a url e (Jpeg img (jpeg_quality a))")
  note path = iteration_publish_path [OF rd rs en img_def pre_def pub, of T]
  have pre_obs: "publishes pre = [] \<and> reconnects pre = [] \<and>
      Log ERROR ConnectionClosedWhilePublishing \<notin> set pre"
    by (simp add: pre_def)
  show ?thesis
  proof (cases "is_connected e")
    case True
    with cc pub have "evp = [Publish (subject a) (Jpeg img (jpeg_quality a)) ConnectionClosedError,
        Log ERROR ConnectionClosedWhilePublishing]" and "\<not> brk"
      by (simp_all add: publish_def)
    with path it pre_obs True loop_step [OF ns it, of es] async_main_obs(1) [of a w]
    show ?thesis
      by (simp add: publishes_append reconnects_append pace_no_publish pace_no_reconnect)
  next
    case False
    show ?thesis
    proof (cases "reconnect_result e")
      case Returns
      with False cc pub have "evp = [Publish (subject a) (Jpeg img (jpeg_quality a)) ConnectionClosedError,
          Log ERROR ConnectionClosedWhilePublishing, Reconnect url 5, Log INFO Reconnected]"
        and "\<not> brk"
        by (simp_all add: publish_def)
      with path it pre_obs False Returns loop_step [OF ns it, of es] async_main_obs(1) [of a w]
      show ?thesis
        by (simp add: publishes_append reconnects_append pace_no_publish pace_no_reconnect)
    next
      case Raises
      with False cc pub have "evp = [Publish (subject a) (Jpeg img (jpeg_quality a)) ConnectionClosedError,
          Log ERROR ConnectionClosedWhilePublishing, Reconnect url 5, Log ERROR FailedToReconnect]"
        and "brk"
        by (simp_all add: publish_def)
      with path it pre_obs False Raises loop_step [OF ns it, of es] async_main_obs(1) [of a w]
      show ?thesis
        by (simp add: publishes_append reconnects_append)
    qed
  qed
qed

theorem bounded_reconnect_witness:
  "reaches_publish default_args closed_iter \<and>
   publish_result closed_iter = ConnectionClosedError \<and>
   \<not> is_set [] 0 \<and>
   \<not> is_connected closed_iter \<and> reconnect_result closed_iter = Raises \<and>
   reconnects [CapRead 0, Imencode (Raw vga_frame) 90,
       Publish ''camera.image.raw'' (Jpeg (Raw vga_frame) 90) ConnectionClosedError,
       Log ERROR ConnectionClosedWhilePublishing, Reconnect ''nats://0.0.0.0:4222'' 5,
       Log ERROR FailedToReconnect] = [(''nats://0.0.0.0:4222'', 5)] \<and>
   loop default_args ''nats://0.0.0.0:4222'' (1 / 30) [] 0 [closed_iter, ok_iter] =
     ([CapRead 0, Imencode (Raw vga_frame) 90,
       Publish ''camera.image.raw'' (Jpeg (Raw vga_frame) 90) ConnectionClosedError,
       Log ERROR ConnectionClosedWhilePublishing, Reconnect ''nats://0.0.0.0:4222'' 5,
       Log ERROR FailedToReconnect], 1 / 100, Some ReconnectFailed)"
proof -
  have cc: "publish_result closed_iter = ConnectionClosedError"
    and nc: "\<not> is_connected closed_iter" and rr: "reconnect_result closed_iter = Raises"
    by (simp_all add: closed_iter_def)
  from bounded_reconnect [OF reaches_publish_closed cc not_set_nil
      iteration_closed [of "''nats://0.0.0.0:4222''"], of "[ok_iter]"] nc rr
  have "reconnects [CapRead 0, Imencode (Raw vga_frame) 90,
       Publish ''camera.image.raw'' (Jpeg (Raw vga_frame) 90) ConnectionClosedError,
       Log ERROR ConnectionClosedWhilePublishing, Reconnect ''nats://0.0.0.0:4222'' 5,
       Log ERROR FailedToReconnect] = [(''nats://0.0.0.0:4222'', 5)] \<and>
   loop default_args ''nats://0.0.0.0:4222'' (1 / 30) [] 0 [closed_iter, ok_iter] =
     ([CapRead 0, Imencode (Raw vga_frame) 90,
       Publish ''camera.image.raw'' (Jpeg (Raw vga_frame) 90) ConnectionClosedError,
       Log ERROR ConnectionClosedWhilePublishing, Reconnect ''nats://0.0.0.0:4222'' 5,
       Log ERROR FailedToReconnect], 1 / 100, Some ReconnectFailed)"
    by simp
  with reaches_publish_closed cc nc rr not_set_nil [of 0] show ?thesis by blast
qed

text \<open>
  C9. In an iteration that reaches the publish call and whose publish raises another
  error than the connection-closed one, the loop logs the error, makes no reconnect and
  goes on with the next iteration.
\<close>

theorem publish_error_continues:
  assumes rp: "reaches_publish a e"
    and pe: "publish_result e = PublishError"
    and ns: "\<not> is_set sigs now"
    and it: "iteration a url T now e = (evs, t, c)"
  shows "Log ERROR ErrorPublishing \<in> set evs \<and>
         reconnects evs = [] \<and>
         c = Continue \<and>
         loop a url T sigs now (e # es) =
           (case loop a url T sigs t es of (evs', t', r) \<Rightarrow> (evs @ evs', t', r))"
proof -
  from rp obtain f where rd: "read_result e = Read True (Some f)"
    and rs: "(cols f = width a \<and> rows f = height a) \<or> resize_result e = Returns"
    and en: "encode_result e = Encoded True"
    by (rule reaches_publishD)
  define img where "img = (if cols f = width a \<and> rows f = height a then Raw f
                     else Resized f (width a) (height a))"
  define pre where "pre = CapRead now # (if cols f = width a \<and> rows f = height a then []
                     else [Resize f (width a) (height a)]) @ [Imencode img (jpeg_quality a)]"
  from pe have pub: "publish a url e (Jpeg img (jpeg_quality a)) =
      ([Publish (subject a) (Jpeg img (jpeg_quality a)) PublishError,
        Log ERROR ErrorPublishing], False)"
    by (simp add: publish_def)
  note path = iteration_publish_path [OF rd rs en img_def pre_def pub, of T]
  have "reconnects pre = []"
    by (simp add: pre_def)
  with path it loop_step [OF ns it, of es] show ?thesis
    by (simp add: reconnects_append pace_no_reconnect)
qed

theorem publish_error_continues_witness:
  "reaches_publish default_args error_iter \<and>
   publish_result error_iter = PublishError \<and>
   \<not> is_set [] 0 \<and>
   loop default_args ''nats://0.0.0.0:4222'' (1 / 30) [] 0 [error_iter] =
     ([CapRead 0, Imencode (Raw vga_frame) 90,
       Publish ''camera.image.raw'' (Jpeg (Raw vga_frame) 90) PublishError,
       Log ERROR ErrorPublishing, Sleep (7 / 300)], 1 / 30, None)"
proof -
  have rp: "reaches_publish default_args error_iter"
    by (simp add: reaches_publish_def error_iter_def ok_iter_def default_args_def
        vga_frame_def)
  have pe: "publish_result error_iter = PublishError"
    by (simp add: error_iter_def)
  from publish_error_continues [OF rp pe not_set_nil
      iteration_error [of "''nats://0.0.0.0:4222''"], of "[]"]
  have "loop default_args ''nats://0.0.0.0:4222'' (1 / 30) [] 0 [error_iter] =
     ([CapRead 0, Imencode (Raw vga_frame) 90,
       Publish ''camera.image.raw'' (Jpeg (Raw vga_frame) 90) PublishError,
       Log ERROR ErrorPublishing, Sleep (7 / 300)], 1 / 30, None)"
    by (simp add: not_set_nil)
  with rp pe not_set_nil [of 0] show ?thesis by blast
qed

text \<open>
  C10. When the publish raises the connection-closed error and the transport reports
  connected when the handler reads the flag, the loop logs the disconnect, makes no
  reconnect call, logs neither a reconnect success nor a reconnect failure, and goes on
  with the next iteration.
\<close>

theorem reconnected_by_client:
  assumes rp: "reaches_publish a e"
    and cc: "publish_result e = ConnectionClosedError"
    and ic: "is_connected e"
    and ns: "\<not> is_set sigs now"
    and it: "iteration a url T now e = (evs, t, c)"
  shows "Log ERROR ConnectionClosedWhilePublishing \<in> set evs \<and>
         reconnects evs = [] \<and>
         Log INFO Reconnected \<notin> set evs \<and>
         Log ERROR FailedToReconnect \<notin> set evs \<and>
         c = Continue \<and>
         loop a url T sigs now (e # es) =
           (case loop a url T sigs t es of (evs', t', r) \<Rightarrow> (evs @ evs', t', r))"
proof -
  from rp obtain f where rd: "read_result e = Read True (Some f)"
    and rs: "(cols f = width a \<and> rows f = height a) \<or> resize_result e = Returns"
    and en: "encode_result e = Encoded True"
    by (rule reaches_publishD)
  define img where "img = (if cols f = width a \<and> rows f = height a then Raw f
                     else Resized f (width a) (height a))"
  define pre where "pre = CapRead now # (if cols f = width a \<and> rows f = height a then []
                     else [Resize f (width a) (height a)]) @ [Imencode img (jpeg_quality a)]"
  from cc ic have pub: "publish a url e (Jpeg img (jpeg_quality a)) =
      ([Publish (subject a) (Jpeg img (jpeg_quality a)) ConnectionClosedError,
        Log ERROR ConnectionClosedWhilePublishing], False)"
    by (simp add: publish_def)
  note path = iteration_publish_path [OF rd rs en img_def pre_def pub, of T]
  have "reconnects pre = [] \<and> Log INFO Reconnected \<notin> set pre \<and>
      Log ERROR FailedToReconnect \<notin> set pre"
    by (simp add: pre_def)
  with path it loop_step [OF ns it, of es] show ?thesis
    by (auto simp: reconnects_append pace_no_reconnect dest: pace_logs)
qed

theorem reconnected_by_client_witness:
  "reaches_publish default_args bounced_iter \<and>
   publish_result bounced_iter = ConnectionClosedError \<and>
   is_connected bounced_iter \<and>
   \<not> is_set [] 0 \<and>
   reconnects [CapRead 0, Imencode (Raw vga_frame) 90,
       Publish ''camera.image.raw'' (Jpeg (Raw vga_frame) 90) ConnectionClosedError,
       Log ERROR ConnectionClosedWhilePublishing, Sleep (7 / 300)] = [] \<and>
   loop default_args ''nats://0.0.0.0:4222'' (1 / 30) [] 0 [bounced_iter] =
     ([CapRead 0, Imencode (Raw vga_frame) 90,
       Publish ''camera.image.raw'' (Jpeg (Raw vga_frame) 90) ConnectionClosedError,
       Log ERROR ConnectionClosedWhilePublishing, Sleep (7 / 300)], 1 / 30, None)"
proof -
  have rp: "reaches_publish default_args bounced_iter"
    by (simp add: reaches_publish_def bounced_iter_def ok_iter_def default_args_def
        vga_frame_def)
  have cc: "publish_result bounced_iter = ConnectionClosedError"
    and ic: "is_connected bounced_iter"
    by (simp_all add: bounced_iter_def ok_iter_def)
  from reconnected_by_client [OF rp cc ic not_set_nil
      iteration_bounced [of "''nats://0.0.0.0:4222''"], of "[]"]
  have "reconnects [CapRead 0, Imencode (Raw vga_frame) 90,
       Publish ''camera.image.raw'' (Jpeg (Raw vga_frame) 90) ConnectionClosedError,
       Log ERROR ConnectionClosedWhilePublishing, Sleep (7 / 300)] = [] \<and>
    loop default_args ''nats://0.0.0.0:4222'' (1 / 30) [] 0 [bounced_iter] =
     ([CapRead 0, Imencode (Raw vga_frame) 90,
       Publish ''camera.image.raw'' (Jpeg (Raw vga_frame) 90) ConnectionClosedError,
       Log ERROR ConnectionClosedWhilePublishing, Sleep (7 / 300)], 1 / 30, None)"
    by (simp add: not_set_nil)
  with rp cc ic not_set_nil [of 0] show ?thesis by blast
qed

subsection \<open>Capture and encode\<close>

text \<open>
  C4. When the source reports failure or returns no frame, the iteration is the capture
  request, a warning and a sleep of 100 ms, whatever the period \<open>T\<close>, and the loop goes on
  with the next iteration. A script made of capture failures only publishes nothing and
  never ends the loop by a reconnect failure or an exception: with no signal the loop is
  still running after the script, having made one capture request and one 100 ms wait
  per iteration. In every run of \<open>async_main\<close>, the payload of every publish call is made
  from a frame that a capture returned with success.
\<close>

theorem capture_failure_skips:
  "(capture_fails e \<longrightarrow>
      iteration a url T start e =
        ([CapRead start, Log WARNING FailedToRetrieveFrame, Sleep (1 / 10)],
         start + work_time e + 1 / 10, Continue)) \<and>
   ((\<forall>e \<in> set es. capture_fails e) \<longrightarrow>
      publishes (fst (loop a url T sigs now es)) = [] \<and>
      snd (snd (loop a url T sigs now es)) \<noteq> Some ReconnectFailed \<and>
      snd (snd (loop a url T sigs now es)) \<noteq> Some Unexpected \<and>
      (sigs = [] \<longrightarrow>
         snd (snd (loop a url T sigs now es)) = None \<and>
         length (captures (fst (loop a url T sigs now es))) = length es \<and>
         sleeps (fst (loop a url T sigs now es)) = replicate (length es) (1 / 10))) \<and>
   (\<forall>x \<in> set (publishes (fst (async_main a w))).
      \<exists>e \<in> set (iterations w). \<not> capture_fails e \<and>
        read_result e = Read True (Some (source_frame (encoded_image (fst (snd x))))))"
proof -
  obtain evs t r where lp: "loop a url T sigs now es = (evs, t, r)"
    by (cases "loop a url T sigs now es")
  have "\<forall>x \<in> set (publishes (fst (async_main a w))).
      \<exists>e \<in> set (iterations w). \<not> capture_fails e \<and>
        read_result e = Read True (Some (source_frame (encoded_image (fst (snd x)))))"
  proof
    fix x assume "x \<in> set (publishes (fst (async_main a w)))"
    with async_main_obs(2) [of a w] have "publish_ok a (iterations w) x" by blast
    then obtain e where "e \<in> set (iterations w)"
      and rd: "read_result e = Read True (Some (source_frame (encoded_image (fst (snd x)))))"
      by (auto simp: publish_ok_def)
    moreover from rd have "\<not> capture_fails e"
      by (simp add: capture_fails_def)
    ultimately show "\<exists>e \<in> set (iterations w). \<not> capture_fails e \<and>
        read_result e = Read True (Some (source_frame (encoded_image (fst (snd x)))))"
      by blast
  qed
  moreover have "(\<forall>e \<in> set es. capture_fails e) \<longrightarrow>
      publishes (fst (loop a url T sigs now es)) = [] \<and>
      snd (snd (loop a url T sigs now es)) \<noteq> Some ReconnectFailed \<and>
      snd (snd (loop a url T sigs now es)) \<noteq> Some Unexpected \<and>
      (sigs = [] \<longrightarrow>
         snd (snd (loop a url T sigs now es)) = None \<and>
         length (captures (fst (loop a url T sigs now es))) = length es \<and>
         sleeps (fst (loop a url T sigs now es)) = replicate (length es) (1 / 10))"
  proof
    assume "\<forall>e \<in> set es. capture_fails e"
    from loop_capture_failures [OF this lp] show "publishes (fst (loop a url T sigs now es)) = [] \<and>
      snd (snd (loop a url T sigs now es)) \<noteq> Some ReconnectFailed \<and>
      snd (snd (loop a url T sigs now es)) \<noteq> Some Unexpected \<and>
      (sigs = [] \<longrightarrow>
         snd (snd (loop a url T sigs now es)) = None \<and>
         length (captures (fst (loop a url T sigs now es))) = length es \<and>
         sleeps (fst (loop a url T sigs now es)) = replicate (length es) (1 / 10))"
      unfolding lp by simp
  qed
  moreover have "capture_fails e \<longrightarrow>
      iteration a url T start e =
        ([CapRead start, Log WARNING FailedToRetrieveFrame, Sleep (1 / 10)],
         start + work_time e + 1 / 10, Continue)"
    using iteration_capture_fails [of e a url T start] by blast
  ultimately show ?thesis by blast
qed

theorem capture_failure_skips_witness:
  "capture_fails failed_iter \<and>
   iteration default_args ''u'' (1 / 30) 0 failed_iter =
     ([CapRead 0, Log WARNING FailedToRetrieveFrame, Sleep (1 / 10)],
      0 + work_time failed_iter + 1 / 10, Continue) \<and>
   publishes (fst (loop default_args ''u'' (1 / 30) [] 0 [failed_iter, failed_iter])) = [] \<and>
   snd (snd (loop default_args ''u'' (1 / 30) [] 0 [failed_iter, failed_iter])) = None \<and>
   sleeps (fst (loop default_args ''u'' (1 / 30) [] 0 [failed_iter, failed_iter])) =
     [1 / 10, 1 / 10] \<and>
   publishes (fst (loop default_args ''u'' (1 / 30) [] 0 [failed_iter, failed_iter, ok_iter])) =
     [(''camera.image.raw'', Jpeg (Raw vga_frame) 90, Published)] \<and>
   sleeps (fst (loop default_args ''u'' (1 / 30) [] 0 [failed_iter, failed_iter, ok_iter])) =
     [1 / 10, 1 / 10, 7 / 300]"
proof -
  note inst = capture_failure_skips [where e = failed_iter and a = default_args
      and url = "''u''" and T = "1 / 30" and start = 0 and now = 0 and sigs = "[]"
      and es = "[failed_iter, failed_iter]" and w = quiet_env]
  from inst capture_fails_failed
  have "iteration default_args ''u'' (1 / 30) 0 failed_iter =
     ([CapRead 0, Log WARNING FailedToRetrieveFrame, Sleep (1 / 10)],
      0 + work_time failed_iter + 1 / 10, Continue)"
    by blast
  moreover from inst capture_fails_failed
  have "publishes (fst (loop default_args ''u'' (1 / 30) [] 0 [failed_iter, failed_iter])) = [] \<and>
   snd (snd (loop default_args ''u'' (1 / 30) [] 0 [failed_iter, failed_iter])) = None \<and>
   sleeps (fst (loop default_args ''u'' (1 / 30) [] 0 [failed_iter, failed_iter])) =
     replicate (length [failed_iter, failed_iter]) (1 / 10)"
    by simp
  moreover have "replicate (length [failed_iter, failed_iter]) (1 / 10 :: rat) = [1 / 10, 1 / 10]"
    by (simp add: numeral_2_eq_2)
  ultimately show ?thesis
    using capture_fails_failed loop_two_failures_then_frame [of "''u''"] by simp
qed

text \<open>
  C5. When a frame is captured whose shape differs from the configured width and height
  and the call of \<open>cv2.resize\<close> returns, the iteration starts with the capture request,
  the resize to the configured width and height and the encoding of the resized image,
  and only the encoder can make that iteration end with an exception. In every run of
  \<open>async_main\<close>, the payload of every publish call is encoded, at the configured quality,
  from an image of exactly the configured height and width.
\<close>

theorem resample_to_target:
  "(read_result e = Read True (Some f) \<and> (cols f \<noteq> width a \<or> rows f \<noteq> height a) \<and>
      resize_result e = Returns \<longrightarrow>
      take 3 (fst (iteration a url T start e)) =
        [CapRead start, Resize f (width a) (height a),
         Imencode (Resized f (width a) (height a)) (jpeg_quality a)] \<and>
      (snd (snd (iteration a url T start e)) = Raise \<longrightarrow> encode_result e = EncodeRaises)) \<and>
   (\<forall>x \<in> set (publishes (fst (async_main a w))).
      shape (encoded_image (fst (snd x))) = (height a, width a) \<and>
      encoded_quality (fst (snd x)) = jpeg_quality a)"
proof -
  have "take 3 (fst (iteration a url T start e)) =
        [CapRead start, Resize f (width a) (height a),
         Imencode (Resized f (width a) (height a)) (jpeg_quality a)] \<and>
      (snd (snd (iteration a url T start e)) = Raise \<longrightarrow> encode_result e = EncodeRaises)"
    if rd: "read_result e = Read True (Some f)"
      and ne: "cols f \<noteq> width a \<or> rows f \<noteq> height a"
      and rs: "resize_result e = Returns"
  proof -
    from rd ne rs have "iteration a url T start e =
        encode_publish a url T start e [CapRead start, Resize f (width a) (height a)]
          (Resized f (width a) (height a))"
      by (auto simp: iteration_def)
    then show ?thesis
      by (cases "publish a url e (Jpeg (Resized f (width a) (height a)) (jpeg_quality a))")
         (simp add: encode_publish_def split_beta split: encode_result.splits)
  qed
  moreover have "\<forall>x \<in> set (publishes (fst (async_main a w))).
      shape (encoded_image (fst (snd x))) = (height a, width a) \<and>
      encoded_quality (fst (snd x)) = jpeg_quality a"
    using async_main_obs(2) [of a w] by (simp add: publish_ok_def)
  ultimately show ?thesis by blast
qed

theorem resample_to_target_witness:
  "read_result big_iter = Read True (Some big_frame) \<and>
   cols big_frame \<noteq> width default_args \<and>
   resize_result big_iter = Returns \<and>
   take 3 (fst (iteration default_args ''u'' (1 / 30) 0 big_iter)) =
     [CapRead 0, Resize big_frame (width default_args) (height default_args),
      Imencode (Resized big_frame (width default_args) (height default_args))
        (jpeg_quality default_args)] \<and>
   (''camera.image.raw'', Jpeg (Resized big_frame 640 480) 90, Published)
     \<in> set (publishes (fst (async_main default_args (quiet_env\<lparr>iterations := [big_iter]\<rparr>)))) \<and>
   shape (Resized big_frame 640 480) = (height default_args, width default_args)"
proof -
  have rd: "read_result big_iter = Read True (Some big_frame)"
    and rs: "resize_result big_iter = Returns"
    by (simp_all add: big_iter_def ok_iter_def)
  have ne: "cols big_frame \<noteq> width default_args"
    by (simp add: big_frame_def default_args_def)
  have mem: "(''camera.image.raw'', Jpeg (Resized big_frame 640 480) 90, Published)
     \<in> set (publishes (fst (async_main default_args (quiet_env\<lparr>iterations := [big_iter]\<rparr>))))"
    by (simp add: async_main_big)
  note inst = resample_to_target [where e = big_iter and f = big_frame and a = default_args
      and url = "''u''" and T = "1 / 30" and start = 0
      and w = "quiet_env\<lparr>iterations := [big_iter]\<rparr>"]
  from inst rd rs ne
  have "take 3 (fst (iteration default_args ''u'' (1 / 30) 0 big_iter)) =
     [CapRead 0, Resize big_frame (width default_args) (height default_args),
      Imencode (Resized big_frame (width default_args) (height default_args))
        (jpeg_quality default_args)]"
    by blast
  moreover from inst mem
  have "shape (encoded_image (fst (snd (''camera.image.raw'',
      Jpeg (Resized big_frame 640 480) 90, Published)))) = (height default_args, width default_args)"
    by blast
  then have "shape (Resized big_frame 640 480) = (height default_args, width default_args)"
    by simp
  ultimately show ?thesis using rd rs ne mem by blast
qed

subsection \<open>Configuration and exit status\<close>

text \<open>
  C8. The encoder quality is checked when the command line is parsed; the cadence is
  not. The command line \<open>--fps 0\<close> is accepted, where \<open>--jpeg_quality 101\<close> is refused.
  \<open>async_main\<close> then opens the camera and connects, the computation of the period
  \<open>1.0 / args.fps\<close> raises \<open>ZeroDivisionError\<close>, the error is logged as unexpected, and the
  function ends with the clean-up without a single capture request.
\<close>

theorem zero_cadence_accepted:
  "parse_args (default_cli\<lparr>cli_jpeg_quality := Parsed 101\<rparr>) = Inl UsageError \<and>
   parse_args (default_cli\<lparr>cli_fps := Parsed 0\<rparr>) = Inr (default_args\<lparr>fps := 0\<rparr>) \<and>
   frame_duration (default_args\<lparr>fps := 0\<rparr>) = Inl ZeroDivisionError \<and>
   async_main (default_args\<lparr>fps := 0\<rparr>) (quiet_env\<lparr>iterations := [ok_iter]\<rparr>) =
     ([Log INFO InitializingCamera, VideoCapture 0, Log INFO SettingCameraProperties,
       CapSet 640 480 0, Log INFO ActualCameraProperties, Log INFO ConnectingToNats,
       Connect ''nats://0.0.0.0:4222'' 5, Log INFO ConnectedToNats,
       Log ERROR UnexpectedError, Log INFO ShuttingDown, Drain, Log INFO Drained, Close,
       Log INFO Closed, Release, Log INFO CameraReleased, Log INFO AsyncMainFinished],
      0, Some Unexpected)"
proof -
  have fd: "frame_duration (default_args\<lparr>fps := 0\<rparr>) = Inl ZeroDivisionError"
    by (simp add: frame_duration_def float_overflows_def)
  have url: "nats_server_url (default_args\<lparr>fps := 0\<rparr>) = ''nats://0.0.0.0:4222''"
    by (simp add: nats_server_url_def default_args_def str_int_def)
  have "async_main (default_args\<lparr>fps := 0\<rparr>) (quiet_env\<lparr>iterations := [ok_iter]\<rparr>) =
     ([Log INFO InitializingCamera, VideoCapture 0, Log INFO SettingCameraProperties,
       CapSet 640 480 0, Log INFO ActualCameraProperties, Log INFO ConnectingToNats,
       Connect ''nats://0.0.0.0:4222'' 5, Log INFO ConnectedToNats,
       Log ERROR UnexpectedError, Log INFO ShuttingDown, Drain, Log INFO Drained, Close,
       Log INFO Closed, Release, Log INFO CameraReleased, Log INFO AsyncMainFinished],
      0, Some Unexpected)"
    by (simp add: async_main_def quiet_env_def fd url startup_def cleanup_def)
       (simp add: default_args_def)
  moreover have "parse_args (default_cli\<lparr>cli_fps := Parsed 0\<rparr>) = Inr (default_args\<lparr>fps := 0\<rparr>)"
    by (simp add: parse_args_def default_cli_def default_args_def int_option_def
        choice_option_def str_option_def)
  moreover have "parse_args (default_cli\<lparr>cli_jpeg_quality := Parsed 101\<rparr>) = Inl UsageError"
    by (simp add: parse_args_def default_cli_def int_option_def choice_option_def)
  ultimately show ?thesis using fd by blast
qed

text \<open>
  C6, as the code has it. Once the command line is accepted, the exit status is 0
  whenever \<open>async_main\<close> ends, whatever the reason: a signal, a camera that does not open,
  a transport that cannot be reached at start-up, or a reconnect that fails.
\<close>

theorem exit_status_zero:
  assumes "parse_args c = Inr a" and "snd (snd (async_main a w)) = Some r"
  shows "snd (main c w) = Some 0"
  using assms by (cases "async_main a w") (simp add: main_def)

theorem exit_status_zero_witness:
  "parse_args default_cli = Inr default_args \<and>
   snd (snd (async_main default_args signalled_env)) = Some Shutdown \<and>
   snd (main default_cli signalled_env) = Some 0 \<and>
   snd (snd (async_main default_args (quiet_env\<lparr>camera_opens := False\<rparr>))) =
     Some CameraOpenFailed \<and>
   snd (main default_cli (quiet_env\<lparr>camera_opens := False\<rparr>)) = Some 0 \<and>
   snd (snd (async_main default_args (quiet_env\<lparr>connect_result := NoServersError\<rparr>))) =
     Some ConnectFailed \<and>
   snd (main default_cli (quiet_env\<lparr>connect_result := NoServersError\<rparr>)) = Some 0 \<and>
   snd (snd (async_main default_args lost_transport_env)) = Some ReconnectFailed \<and>
   snd (main default_cli lost_transport_env) = Some 0"
proof -
  have r1: "snd (snd (async_main default_args signalled_env)) = Some Shutdown"
    by (simp add: async_main_signalled)
  have r2: "snd (snd (async_main default_args (quiet_env\<lparr>camera_opens := False\<rparr>))) =
     Some CameraOpenFailed"
    by (simp add: async_main_no_camera)
  have r3: "snd (snd (async_main default_args (quiet_env\<lparr>connect_result := NoServersError\<rparr>))) =
     Some ConnectFailed"
    by (simp add: async_main_no_server)
  have r4: "snd (snd (async_main default_args lost_transport_env)) = Some ReconnectFailed"
    by (simp add: async_main_lost_transport)
  from exit_status_zero [OF parse_default r1] exit_status_zero [OF parse_default r2]
    exit_status_zero [OF parse_default r3] exit_status_zero [OF parse_default r4]
    parse_default r1 r2 r3 r4
  show ?thesis by blast
qed

text \<open>The camera does not open: the error is logged and the exit status is 0.\<close>

theorem exit_status_counterexample:
  "snd (snd (async_main default_args (quiet_env\<lparr>camera_opens := False\<rparr>))) =
     Some CameraOpenFailed \<and>
   main default_cli (quiet_env\<lparr>camera_opens := False\<rparr>) =
     ([Log INFO StartingServer, Log INFO InitializingCamera, VideoCapture 0,
       Log ERROR CouldNotOpenCamera, Log INFO ShuttingDown, Log INFO AsyncMainFinished,
       Log INFO ServerShutDown], Some 0)"
  by (simp add: main_def parse_default async_main_no_camera)

subsection \<open>Shutdown\<close>

text \<open>
  C1, as the code has it. When \<open>async_main\<close> ends because the shutdown flag was seen, a
  reconnect failed or an exception left the body, no capture request of the run was
  issued at a time at which the flag was set (and a loop left for the flag was left at a
  time at which it was set), and the run ends with the clean-up: the transport is
  drained when it reports connected, then closed, then the frame source is released, in
  that order and whatever the drain and the close answer. A failure of the drain or of
  the close is logged when the transport reports connected; when it reports
  disconnected, the close is followed by the release with no log entry, whether the
  close fails or not.
\<close>

theorem cleanup_on_every_exit:
  assumes am: "async_main a w = (tr, t, Some r)"
    and r: "r = Shutdown \<or> r = ReconnectFailed \<or> r = Unexpected"
  shows "(\<forall>tc \<in> set (captures tr). \<not> is_set (signals w) tc) \<and>
         (r = Shutdown \<longrightarrow> is_set (signals w) t) \<and>
         teardown tr = (if connected_at_exit w then [Drain, Close, Release] else [Close, Release]) \<and>
         (\<exists>before. captures before = captures tr \<and>
            tr = before @ Log INFO ShuttingDown #
              (if connected_at_exit w then
                 [Drain,
                  (case drain_result w of Returns \<Rightarrow> Log INFO Drained
                   | Raises \<Rightarrow> Log ERROR ErrorDuringDrain),
                  Close,
                  (case close_result w of Returns \<Rightarrow> Log INFO Closed
                   | Raises \<Rightarrow> Log ERROR ErrorClosing)]
               else [Close]) @
              [Release, Log INFO CameraReleased, Log INFO AsyncMainFinished])"
proof -
  from async_main_after_connect [OF am r] obtain before where
    tr: "tr = before @ cleanup True (connected_at_exit w) (drain_result w) (close_result w) True"
    and tb: "teardown before = []" and sh: "r = Shutdown \<longrightarrow> is_set (signals w) t"
    by blast
  from am async_main_obs(3) [of a w]
  have cap: "\<forall>tc \<in> set (captures tr). \<not> is_set (signals w) tc"
    by simp
  from tr tb have td: "teardown tr =
      (if connected_at_exit w then [Drain, Close, Release] else [Close, Release])"
    by (simp add: teardown_append cleanup_def split: call_result.splits)
  from tr have "captures before = captures tr"
    by (simp add: captures_append cleanup_obs)
  moreover from tr have "tr = before @ Log INFO ShuttingDown #
              (if connected_at_exit w then
                 [Drain,
                  (case drain_result w of Returns \<Rightarrow> Log INFO Drained
                   | Raises \<Rightarrow> Log ERROR ErrorDuringDrain),
                  Close,
                  (case close_result w of Returns \<Rightarrow> Log INFO Closed
                   | Raises \<Rightarrow> Log ERROR ErrorClosing)]
               else [Close]) @
              [Release, Log INFO CameraReleased, Log INFO AsyncMainFinished]"
    by (simp add: cleanup_def)
  ultimately show ?thesis using cap sh td by blast
qed

theorem cleanup_on_every_exit_witness:
  "snd (snd (async_main default_args signalled_env)) = Some Shutdown \<and>
   is_set (signals signalled_env) (1 / 30) \<and>
   connected_at_exit signalled_env \<and>
   captures (fst (async_main default_args signalled_env)) = [0] \<and>
   \<not> is_set (signals signalled_env) 0 \<and>
   teardown (fst (async_main default_args signalled_env)) = [Drain, Close, Release]"
proof -
  have ce: "connected_at_exit signalled_env"
    by (simp add: signalled_env_def quiet_env_def)
  have cap: "captures (fst (async_main default_args signalled_env)) = [0]"
    by (simp add: async_main_signalled)
  from cleanup_on_every_exit [OF async_main_signalled] ce cap
  have "is_set (signals signalled_env) (1 / 30) \<and> \<not> is_set (signals signalled_env) 0 \<and>
      teardown (fst (async_main default_args signalled_env)) = [Drain, Close, Release]"
    by (simp add: async_main_signalled)
  with ce cap show ?thesis
    by (simp add: async_main_signalled)
qed

text \<open>
  The reconnect fails, the transport reports disconnected at the clean-up and its
  \<open>close\<close> raises: nothing is logged about the failure.
\<close>

theorem silent_close_failure_counterexample:
  "\<not> connected_at_exit lost_transport_env \<and>
   close_result lost_transport_env = Raises \<and>
   async_main default_args lost_transport_env =
     ([Log INFO InitializingCamera, VideoCapture 0, Log INFO SettingCameraProperties,
       CapSet 640 480 30, Log INFO ActualCameraProperties, Log INFO ConnectingToNats,
       Connect ''nats://0.0.0.0:4222'' 5, Log INFO ConnectedToNats, Log INFO StartingLoop,
       CapRead 0, Imencode (Raw vga_frame) 90,
       Publish ''camera.image.raw'' (Jpeg (Raw vga_frame) 90) ConnectionClosedError,
       Log ERROR ConnectionClosedWhilePublishing, Reconnect ''nats://0.0.0.0:4222'' 5,
       Log ERROR FailedToReconnect, Log INFO ShuttingDown, Close, Release,
       Log INFO CameraReleased, Log INFO AsyncMainFinished], 1 / 100, Some ReconnectFailed) \<and>
   Log ERROR ErrorClosing \<notin> set (fst (async_main default_args lost_transport_env))"
  by (simp add: async_main_lost_transport) (simp add: lost_transport_env_def quiet_env_def)

text \<open>
  C7, as the code has it. The cadence sleep is not cut short by the shutdown flag: when
  a signal arrives during the sleep of an iteration, the sleep still lasts the period
  minus the elapsed time, and the loop is left at \<open>t0 + T\<close>, the end of the sleep, which is
  when the flag is read next.
\<close>

theorem cadence_sleep_runs_to_completion:
  assumes rd: "read_result e = Read True (Some f)"
    and it: "iteration a url T t0 e = (evs, t, Continue)"
    and lt: "work_time e < T"
    and ns: "\<not> is_set sigs t0"
    and sg: "s \<in> set sigs" "t0 + work_time e < s" "s \<le> t0 + T"
  shows "last evs = Sleep (T - work_time e) \<and> t = t0 + T \<and>
         loop a url T sigs t0 (e # es) = (evs, t0 + T, Some Shutdown)"
proof -
  from iteration_sleeps [OF rd it lt] obtain work where
    evs: "evs = work @ [Sleep (T - work_time e)]" and t: "t = t0 + T"
    by blast
  from sg have "is_set sigs (t0 + T)"
    by (auto simp: is_set_def list_ex_iff)
  with t have "loop a url T sigs t es = ([], t0 + T, Some Shutdown)"
    by (simp add: loop_set)
  with loop_step [OF ns it, of es]
  have l: "loop a url T sigs t0 (e # es) = (evs, t0 + T, Some Shutdown)"
    by simp
  from evs have "last evs = Sleep (T - work_time e)"
    by simp
  with t l show ?thesis by blast
qed

theorem cadence_sleep_runs_to_completion_witness:
  "read_result ok_iter = Read True (Some vga_frame) \<and>
   work_time ok_iter < 1 / 30 \<and>
   \<not> is_set [1 / 50] 0 \<and>
   0 + work_time ok_iter < 1 / 50 \<and>
   loop default_args ''u'' (1 / 30) [1 / 50] 0 [ok_iter, ok_iter] =
     ([CapRead 0, Imencode (Raw vga_frame) 90,
       Publish ''camera.image.raw'' (Jpeg (Raw vga_frame) 90) Published,
       Log DEBUG PublishedFrame, Sleep (7 / 300)], 0 + 1 / 30, Some Shutdown)"
proof -
  have rd: "read_result ok_iter = Read True (Some vga_frame)"
    and lt: "work_time ok_iter < 1 / 30"
    and s1: "(1 / 50 :: rat) \<in> set [1 / 50]"
    and s2: "0 + work_time ok_iter < 1 / 50"
    and s3: "(1 / 50 :: rat) \<le> 0 + 1 / 30"
    by (simp_all add: ok_iter_def)
  have ns: "\<not> is_set [1 / 50] 0"
    by (simp add: is_set_signal)
  from cadence_sleep_runs_to_completion [OF rd iteration_ok [of "''u''"] lt ns s1 s2 s3,
      of "[ok_iter]"]
  have "loop default_args ''u'' (1 / 30) [1 / 50] 0 [ok_iter, ok_iter] =
     ([CapRead 0, Imencode (Raw vga_frame) 90,
       Publish ''camera.image.raw'' (Jpeg (Raw vga_frame) 90) Published,
       Log DEBUG PublishedFrame, Sleep (7 / 300)], 0 + 1 / 30, Some Shutdown)"
    by blast
  with rd lt ns s2 show ?thesis by blast
qed

text \<open>
  The flag is set 20 ms after the loop started, 10 ms into the cadence sleep of the
  first iteration. The sleep lasts its full 7/300 s, and the loop sees the flag at
  1/30 s, the end of the sleep.
\<close>

theorem cadence_sleep_counterexample:
  "\<not> is_set (signals signalled_env) (1 / 100) \<and>
   is_set (signals signalled_env) (1 / 50) \<and>
   (1 / 50 :: rat) < 1 / 30 \<and>
   (1 / 100 + 7 / 300 :: rat) = 1 / 30 \<and>
   loop default_args (nats_server_url default_args) (1 / 30) (signals signalled_env)
       (loop_start signalled_env) (iterations signalled_env) =
     ([CapRead 0, Imencode (Raw vga_frame) 90,
       Publish ''camera.image.raw'' (Jpeg (Raw vga_frame) 90) Published,
       Log DEBUG PublishedFrame, Sleep (7 / 300)], 1 / 30, Some Shutdown)"
  using loop_signalled [of "nats_server_url default_args"]
  by (simp add: signalled_env_def quiet_env_def is_set_signal del: loop.simps)

end
